theory Spec2Isabelle
  imports Main "HOL-Library.Word"
begin

unbundle bit_operations_syntax

section \<open>Data model\<close>

type_synonym bytes = string

text \<open>Go error values, as far as the program can tell them apart.\<close>

datatype error =
    OSError string
  | ErrWriteTooLong
  | ErrMissedWriting nat
  | ErrWriteAfterClose
  | ErrUnexpectedStatus string
  | LibError string

text \<open>\<open>os.FileInfo\<close> as the walk callback reads it: \<open>Size()\<close>, \<open>Mode()\<close>
  (an \<open>os.FileMode\<close>, a \<open>uint32\<close>) and \<open>ModTime()\<close>.\<close>

record fileinfo =
  fi_Size :: nat
  fi_Mode :: "32 word"
  fi_ModTime :: int

definition ModeDir :: "32 word" where
  "ModeDir = push_bit 31 1"

definition IsDir :: "fileinfo \<Rightarrow> bool" where
  "IsDir info = (fi_Mode info AND ModeDir \<noteq> 0)"

text \<open>\<open>tar.Header\<close>, the four fields the program sets; \<open>Mode\<close> is an \<open>int64\<close>.\<close>

record header =
  Name :: string
  Size :: nat
  Mode :: "64 word"
  ModTime :: int

text \<open>One call of the walk callback: \<open>fullPath\<close>, \<open>info\<close>, \<open>err\<close>.\<close>

record visit =
  v_fullPath :: string
  v_info :: fileinfo
  v_err :: "error option"

text \<open>An opened \<open>*os.File\<close>: the bytes reading it yields, and the error (if any)
  a read reports after them instead of end of file.\<close>

record osfile =
  f_content :: bytes
  f_rerr :: "error option"

text \<open>The operating system and the path library seen from the program. The sink
  accepts \<open>sink_budget\<close> layer writes (\<open>None\<close>: all of them) and fails ever after.\<close>

record os =
  os_Open :: "string \<Rightarrow> error + osfile"
  filepath_Walk :: "string \<Rightarrow> visit list"
  filepath_Rel :: "string \<Rightarrow> string \<Rightarrow> error + string"
  sink_budget :: "nat option"

text \<open>The logical stream the gzip layer has accepted for the sink.\<close>

datatype item = Hdr header | Data bytes | Footer | GzTrailer

text \<open>\<open>credsResponse\<close> (main.go, lines 22 to 29).\<close>

record credsResponse =
  BucketName :: string
  SecretKey :: string
  AccessKey :: string
  SessionToken :: string
  Region :: string
  Key :: string

text \<open>The \<open>http.Client\<close> of \<open>requestCreds\<close>, reduced to the one setting the
  program makes, and the request as the program builds it.\<close>

record http_client =
  InsecureSkipVerify :: bool

record request =
  req_Method :: string
  req_URL :: string
  req_Body :: string
  req_ContentType :: string
  req_BasicAuth :: "string \<times> string"

record response =
  StatusCode :: nat
  Status :: string
  Body :: bytes

text \<open>\<open>credentials.NewStaticCredentials(id, secret, token)\<close> and the \<open>aws.Config\<close>
  of the session.\<close>

record static_creds =
  AccessKeyID :: string
  SecretAccessKey :: string
  Token :: string

record session =
  cfg_Region :: string
  cfg_Credentials :: static_creds

text \<open>\<open>s3manager.UploadInput\<close>; the body is the archive file, of which the model
  keeps the offset it is read from.\<close>

record upload_input =
  in_Bucket :: string
  in_Key :: string
  in_BodyOffset :: nat

datatype event =
    EvCreate string
  | EvOpenDir string
  | EvNewGzip
  | EvNewTar
  | EvOpen string
  | EvWriteHeader header
  | EvCopy string
  | EvCloseFile string
  | EvTarClose
  | EvGzipClose
  | EvDirClose
  | EvDo http_client request
  | EvBodyClose
  | EvSeek nat
  | EvNewSession session
  | EvUpload session upload_input
  | EvFatal string error

text \<open>The two writer layers over the sink, the sink's file offset \<open>pos\<close> (counted
  in items), and the trace of calls made so far.\<close>

record world =
  out :: "item list"
  pos :: nat
  nops :: nat
  gzerr :: "error option"
  gzclosed :: bool
  twerr :: "error option"
  twrem :: nat
  trace :: "event list"

definition new_world :: world where
  "new_world = \<lparr>out = [], pos = 0, nops = 0, gzerr = None, gzclosed = False,
     twerr = None, twrem = 0, trace = []\<rparr>"

definition log :: "event \<Rightarrow> world \<Rightarrow> world" where
  "log e w = w\<lparr>trace := trace w @ [e]\<rparr>"

section \<open>The writer layers (compress/gzip and archive/tar)\<close>

definition sink_fails :: "os \<Rightarrow> nat \<Rightarrow> bool" where
  "sink_fails env n = (case sink_budget env of None \<Rightarrow> False | Some b \<Rightarrow> b \<le> n)"

text \<open>\<open>gzip.Writer.Write\<close>: a sticky error; otherwise the item reaches the stream
  unless the sink fails.\<close>

definition gz_Write :: "os \<Rightarrow> item \<Rightarrow> world \<Rightarrow> error option \<times> world" where
  "gz_Write env x w =
     (case gzerr w of
        Some e \<Rightarrow> (Some e, w)
      | None \<Rightarrow>
          if sink_fails env (nops w)
          then (Some (OSError ''write''), w\<lparr>nops := Suc (nops w), gzerr := Some (OSError ''write'')\<rparr>)
          else (None, w\<lparr>out := out w @ [x], pos := Suc (pos w), nops := Suc (nops w)\<rparr>))"

text \<open>\<open>gzip.Writer.Close\<close>.\<close>

definition gz_Close :: "os \<Rightarrow> world \<Rightarrow> error option \<times> world" where
  "gz_Close env w =
     (case gzerr w of
        Some e \<Rightarrow> (Some e, w)
      | None \<Rightarrow>
          if gzclosed w then (None, w)
          else gz_Write env GzTrailer (w\<lparr>gzclosed := True\<rparr>))"

text \<open>\<open>tar.Writer.WriteHeader\<close>: flushes the previous entry (an entry that is
  short of its size is an error), then writes the header block.\<close>

definition tar_WriteHeader :: "os \<Rightarrow> header \<Rightarrow> world \<Rightarrow> error option \<times> world" where
  "tar_WriteHeader env h w =
     (case twerr w of
        Some e \<Rightarrow> (Some e, w)
      | None \<Rightarrow>
          if 0 < twrem w then (Some (ErrMissedWriting (twrem w)), w)
          else (case gz_Write env (Hdr h) w of
                  (Some e, w') \<Rightarrow> (Some e, w'\<lparr>twerr := Some e\<rparr>)
                | (None, w') \<Rightarrow> (None, w'\<lparr>twrem := Size h\<rparr>)))"

text \<open>\<open>io.Copy(tarWriter, file)\<close>: the bytes read go to \<open>tar.Writer.Write\<close>, which
  takes no more than the entry's size and reports \<open>ErrWriteTooLong\<close> beyond it.\<close>

definition io_Copy :: "os \<Rightarrow> osfile \<Rightarrow> world \<Rightarrow> error option \<times> world" where
  "io_Copy env f w =
     (if f_content f = [] then (f_rerr f, w)
      else (case twerr w of
              Some e \<Rightarrow> (Some e, w)
            | None \<Rightarrow>
                (let b = take (twrem w) (f_content f) in
                 (case (if b = [] then (None, w) else gz_Write env (Data b) w) of
                    (Some e, w') \<Rightarrow> (Some e, w'\<lparr>twerr := Some e\<rparr>)
                  | (None, w') \<Rightarrow>
                      (if twrem w < length (f_content f) then Some ErrWriteTooLong else f_rerr f,
                       w'\<lparr>twrem := twrem w - length b\<rparr>)))))"

text \<open>\<open>tar.Writer.Close\<close>: flushes the last entry and writes the end-of-archive
  marker, unless the writer is in error.\<close>

definition tar_Close :: "os \<Rightarrow> world \<Rightarrow> error option \<times> world" where
  "tar_Close env w =
     (case twerr w of
        Some e \<Rightarrow> (if e = ErrWriteAfterClose then (None, w) else (Some e, w))
      | None \<Rightarrow>
          if 0 < twrem w then (Some (ErrMissedWriting (twrem w)), w)
          else (case gz_Write env Footer w of
                  (Some e, w') \<Rightarrow> (Some e, w'\<lparr>twerr := Some e\<rparr>)
                | (None, w') \<Rightarrow> (None, w'\<lparr>twerr := Some ErrWriteAfterClose\<rparr>)))"

section \<open>dirToTar\<close>

text \<open>The callback handed to \<open>filepath.Walk\<close> (main.go, lines 140 to 184). The
  deferred \<open>file.Close()\<close> runs on every return after the file is open.\<close>

definition walkFn :: "os \<Rightarrow> string \<Rightarrow> visit \<Rightarrow> world \<Rightarrow> error option \<times> world" where
  "walkFn env dirPath v w =
     (case v_err v of
        Some e \<Rightarrow> (Some e, w)
      | None \<Rightarrow>
          if IsDir (v_info v) then (None, w)
          else (case filepath_Rel env dirPath (v_fullPath v) of
                  Inl _ \<Rightarrow> (None, w)
                | Inr relPath \<Rightarrow>
                    (case os_Open env (v_fullPath v) of
                       Inl e \<Rightarrow> (Some e, log (EvOpen (v_fullPath v)) w)
                     | Inr f \<Rightarrow>
                         (let w0 = log (EvOpen (v_fullPath v)) w;
                              hdr = \<lparr>Name = relPath, Size = fi_Size (v_info v),
                                     Mode = ucast (fi_Mode (v_info v)),
                                     ModTime = fi_ModTime (v_info v)\<rparr>
                          in (case tar_WriteHeader env hdr (log (EvWriteHeader hdr) w0) of
                                (Some e, w1) \<Rightarrow> (Some e, log (EvCloseFile (v_fullPath v)) w1)
                              | (None, w1) \<Rightarrow>
                                  (case io_Copy env f (log (EvCopy (v_fullPath v)) w1) of
                                     (r, w2) \<Rightarrow> (r, log (EvCloseFile (v_fullPath v)) w2)))))))"

text \<open>\<open>filepath.Walk\<close> calls the callback on each visit in turn and stops at the
  first error the callback returns.\<close>

fun walk :: "(visit \<Rightarrow> world \<Rightarrow> error option \<times> world) \<Rightarrow> visit list \<Rightarrow> world
    \<Rightarrow> error option \<times> world" where
  "walk fn [] w = (None, w)"
| "walk fn (v # vs) w =
     (case fn v w of
        (Some e, w') \<Rightarrow> (Some e, w')
      | (None, w') \<Rightarrow> walk fn vs w')"

text \<open>The deferred calls of \<open>dirToTar\<close>, last registered first; their results are
  dropped.\<close>

definition run_defers :: "os \<Rightarrow> world \<Rightarrow> world" where
  "run_defers env w =
     (let w1 = snd (tar_Close env (log EvTarClose w));
          w2 = snd (gz_Close env (log EvGzipClose w1))
      in log EvDirClose w2)"

definition dirToTar :: "os \<Rightarrow> string \<Rightarrow> world \<Rightarrow> error option \<times> world" where
  "dirToTar env dirPath rawWriter =
     (case os_Open env dirPath of
        Inl e \<Rightarrow> (Some e, rawWriter)
      | Inr dir \<Rightarrow>
          (let w0 = log EvNewTar (log EvNewGzip (log (EvOpenDir dirPath) rawWriter));
               (err, w1) = walk (walkFn env dirPath) (filepath_Walk env dirPath) w0
           in (err, run_defers env w1)))"

section \<open>requestCreds\<close>

text \<open>The environment variables and the libraries \<open>requestCreds\<close> calls:
  \<open>http.NewRequest\<close> (which fails on a URL it cannot parse), \<open>Client.Do\<close> and the
  JSON decoder of the response body. The decoder either fails or yields, for each
  \<open>json\<close> tag of the target struct, the string it stores in the field with that tag
  (the empty string when the body has no such member).\<close>

record net =
  os_Getenv :: "string \<Rightarrow> string"
  http_NewRequest :: "string \<Rightarrow> string \<Rightarrow> error option"
  client_Do :: "http_client \<Rightarrow> request \<Rightarrow> error + response"
  json_Decode :: "bytes \<Rightarrow> error + (string \<Rightarrow> string)"

text \<open>The \<open>json\<close> tags of \<open>credsResponse\<close> (main.go, lines 23 to 28).\<close>

definition decode_creds :: "(string \<Rightarrow> string) \<Rightarrow> credsResponse" where
  "decode_creds m =
     \<lparr>BucketName = m ''bucketName'', SecretKey = m ''secretKey'', AccessKey = m ''accessKey'',
      SessionToken = m ''sessionToken'', Region = m ''region'', Key = m ''key''\<rparr>"

definition StatusOK :: nat where
  "StatusOK = 200"

definition reqData :: string where
  \<open>reqData = ''{ "fileName":"TestFile", "isPrivate": "false" }''\<close>

text \<open>\<open>requestCreds\<close> (main.go, lines 60 to 108); the deferred \<open>resp.Body.Close()\<close>
  runs on every return after \<open>Do\<close> has succeeded.\<close>

definition requestCreds :: "net \<Rightarrow> event list \<Rightarrow> (error + credsResponse) \<times> event list" where
  "requestCreds env tr =
     (let hydraURL = os_Getenv env ''HYDRA_URL'';
          hydraUsername = os_Getenv env ''HYDRA_USER'';
          hydraPassword = os_Getenv env ''HYDRA_PASS'';
          insecureClient = \<lparr>InsecureSkipVerify = True\<rparr>
      in (case http_NewRequest env ''POST'' hydraURL of
            Some e \<Rightarrow> (Inl e, tr)
          | None \<Rightarrow>
              (let req = \<lparr>req_Method = ''POST'', req_URL = hydraURL, req_Body = reqData,
                          req_ContentType = ''application/json'',
                          req_BasicAuth = (hydraUsername, hydraPassword)\<rparr>;
                   tr1 = tr @ [EvDo insecureClient req]
               in (case client_Do env insecureClient req of
                     Inl e \<Rightarrow> (Inl e, tr1)
                   | Inr resp \<Rightarrow>
                       if StatusCode resp \<noteq> StatusOK
                       then (Inl (ErrUnexpectedStatus (Status resp)), tr1 @ [EvBodyClose])
                       else (case json_Decode env (Body resp) of
                               Inl e \<Rightarrow> (Inl e, tr1 @ [EvBodyClose])
                             | Inr m \<Rightarrow> (Inr (decode_creds m), tr1 @ [EvBodyClose]))))))"

section \<open>Upload\<close>

text \<open>What the program needs beyond the archiver and the credential request:
  \<open>os.Create\<close>, \<open>File.Seek\<close>, \<open>session.NewSession\<close> and the uploader.\<close>

record sys =
  sys_os :: os
  sys_net :: net
  os_Create :: "string \<Rightarrow> error option"
  file_Seek :: "nat \<Rightarrow> error option"
  session_NewSession :: "session \<Rightarrow> error option"
  s3_Upload :: "session \<Rightarrow> upload_input \<Rightarrow> error option"

definition toAWSCredentials :: "credsResponse \<Rightarrow> static_creds" where
  "toAWSCredentials c =
     \<lparr>AccessKeyID = AccessKey c, SecretAccessKey = SecretKey c, Token = SessionToken c\<rparr>"

definition createSession :: "sys \<Rightarrow> credsResponse \<Rightarrow> world \<Rightarrow> (error + session) \<times> world" where
  "createSession env c w =
     (let s = \<lparr>cfg_Region = Region c, cfg_Credentials = toAWSCredentials c\<rparr>
      in (case session_NewSession env s of
            Some e \<Rightarrow> (Inl e, log (EvNewSession s) w)
          | None \<Rightarrow> (Inr s, log (EvNewSession s) w)))"

definition uploadFileToS3 :: "sys \<Rightarrow> session \<Rightarrow> credsResponse \<Rightarrow> world \<Rightarrow> error option \<times> world" where
  "uploadFileToS3 env s creds file =
     (let inp = \<lparr>in_Bucket = BucketName creds, in_Key = Key creds, in_BodyOffset = pos file\<rparr>
      in (s3_Upload env s inp, log (EvUpload s inp) file))"

definition uploadFile :: "sys \<Rightarrow> credsResponse \<Rightarrow> world \<Rightarrow> error option \<times> world" where
  "uploadFile env c f =
     (case createSession env c f of
        (Inl err, f') \<Rightarrow> (Some err, f')
      | (Inr s, f') \<Rightarrow> uploadFileToS3 env s c f')"

section \<open>main\<close>

text \<open>\<open>klog.Fatalln\<close> logs and ends the process with status 255; a run that reaches
  the end of \<open>main\<close> ends with status 0.\<close>

definition fatal :: "string \<Rightarrow> error \<Rightarrow> world \<Rightarrow> nat \<times> world" where
  "fatal msg e w = (255, log (EvFatal msg e) w)"

definition srcDir :: string where
  "srcDir = ''./must-gather/''"

definition tmpTar :: string where
  "tmpTar = ''./must-gather.tar.gz''"

definition main :: "sys \<Rightarrow> nat \<times> world" where
  "main env =
     (case os_Create env tmpTar of
        Some err \<Rightarrow> fatal ''Unable to create temporary archive file --'' err
                     (log (EvCreate tmpTar) new_world)
      | None \<Rightarrow>
          (case dirToTar (sys_os env) srcDir (log (EvCreate tmpTar) new_world) of
             (Some err, f) \<Rightarrow> fatal ''Unable to archive Must-Gather directory --'' err f
           | (None, f) \<Rightarrow>
               (case requestCreds (sys_net env) (trace f) of
                  (Inl err, tr) \<Rightarrow> fatal ''Credentials request failed --'' err (f\<lparr>trace := tr\<rparr>)
                | (Inr creds, tr) \<Rightarrow>
                    (case file_Seek env 0 of
                       Some err \<Rightarrow> fatal ''Unable to rewind archive file --'' err
                                    (log (EvSeek 0) (f\<lparr>trace := tr\<rparr>))
                     | None \<Rightarrow>
                         (case uploadFile env creds (log (EvSeek 0) (f\<lparr>trace := tr, pos := 0\<rparr>)) of
                            (Some err, f') \<Rightarrow> fatal ''Could not upload file --'' err f'
                          | (None, f') \<Rightarrow> (0, f'))))))"

section \<open>Reading an archive back\<close>

text \<open>Decompressing and parsing the stream the sink holds: a complete archive is a
  sequence of entries, each a header followed by exactly as many bytes as the header
  announces, closed by the tar end-of-archive marker and the gzip trailer. Anything
  else does not parse.\<close>

fun parse_archive :: "item list \<Rightarrow> (header \<times> bytes) list option" where
  "parse_archive [Footer, GzTrailer] = Some []"
| "parse_archive (Hdr h # Data d # xs) =
     (if length d = Size h then map_option ((#) (h, d)) (parse_archive xs) else None)"
| "parse_archive (Hdr h # xs) =
     (if Size h = 0 then map_option ((#) (h, [])) (parse_archive xs) else None)"
| "parse_archive xs = None"

text \<open>The events of one callback run.\<close>

fun file_event :: "event \<Rightarrow> bool" where
  "file_event (EvOpen p) = True"
| "file_event (EvWriteHeader h) = True"
| "file_event (EvCopy p) = True"
| "file_event (EvCloseFile p) = True"
| "file_event e = False"

text \<open>The events of the three stages of \<open>main\<close>.\<close>

fun archive_event :: "event \<Rightarrow> bool" where
  "archive_event (EvOpenDir p) = True"
| "archive_event EvNewGzip = True"
| "archive_event EvNewTar = True"
| "archive_event EvTarClose = True"
| "archive_event EvGzipClose = True"
| "archive_event EvDirClose = True"
| "archive_event e = file_event e"

fun creds_event :: "event \<Rightarrow> bool" where
  "creds_event (EvDo c r) = True"
| "creds_event EvBodyClose = True"
| "creds_event e = False"

fun upload_event :: "event \<Rightarrow> bool" where
  "upload_event (EvSeek n) = True"
| "upload_event (EvNewSession s) = True"
| "upload_event (EvUpload s i) = True"
| "upload_event e = False"

fun fatal_event :: "event \<Rightarrow> bool" where
  "fatal_event (EvFatal m e) = True"
| "fatal_event e = False"

fun is_EvDo :: "event \<Rightarrow> bool" where
  "is_EvDo (EvDo c r) = True"
| "is_EvDo e = False"

fun is_EvUpload :: "event \<Rightarrow> bool" where
  "is_EvUpload (EvUpload s i) = True"
| "is_EvUpload e = False"

section \<open>A file system and the path library\<close>

text \<open>A directory tree as \<open>lstat\<close> and \<open>readdir\<close> show it: a file with its mode, its
  modification time and its bytes; a directory with its permission bits, its
  modification time and its entries by name, in the order the walk reads them.\<close>

datatype node =
    File "32 word" int bytes
  | Dir "32 word" int "(string \<times> node) list"

fun lstat :: "node \<Rightarrow> fileinfo" where
  "lstat (File m t c) = \<lparr>fi_Size = length c, fi_Mode = m, fi_ModTime = t\<rparr>"
| "lstat (Dir m t cs) = \<lparr>fi_Size = 4096, fi_Mode = ModeDir OR m, fi_ModTime = t\<rparr>"

text \<open>Model of \<open>strings.Split(s, "/")\<close> and \<open>strings.Join(xs, "/")\<close> (Go standard
  library, not part of the repository).\<close>

fun split_path :: "string \<Rightarrow> string list" where
  "split_path [] = [[]]"
| "split_path (c # cs) =
     (if c = CHR ''/'' then [] # split_path cs
      else (case split_path cs of [] \<Rightarrow> [[c]] | x # xs \<Rightarrow> (c # x) # xs))"

fun join_path :: "string list \<Rightarrow> string" where
  "join_path [] = []"
| "join_path [x] = x"
| "join_path (x # y # ys) = x @ CHR ''/'' # join_path (y # ys)"

text \<open>Model of \<open>filepath.Clean\<close> on Unix (Go standard library), following its
  documented rules: empty elements and \<open>.\<close> are dropped; \<open>..\<close> removes the element
  before it when that is not itself \<open>..\<close>, is dropped at the start of a rooted path, and
  is kept otherwise; the empty result is \<open>.\<close>. A path is kept as whether it is rooted
  and the list of its elements.\<close>

definition rooted :: "string \<Rightarrow> bool" where
  "rooted p = (case p of [] \<Rightarrow> False | c # cs \<Rightarrow> c = CHR ''/'')"

definition clean_step :: "bool \<Rightarrow> string list \<Rightarrow> string \<Rightarrow> string list" where
  "clean_step r acc x =
     (if x = [] \<or> x = ''.'' then acc
      else if x = ''..'' then
        (if acc \<noteq> [] \<and> last acc \<noteq> ''..'' then butlast acc
         else if r then acc else acc @ [x])
      else acc @ [x])"

definition elems :: "string \<Rightarrow> string list" where
  "elems p = foldl (clean_step (rooted p)) [] (split_path p)"

definition Clean :: "string \<Rightarrow> string" where
  "Clean p =
     (if rooted p then CHR ''/'' # join_path (elems p)
      else if elems p = [] then ''.'' else join_path (elems p))"

text \<open>Model of \<open>filepath.Join\<close> for two elements: empty elements are ignored, the
  rest is joined by a separator and cleaned.\<close>

definition Join :: "string \<Rightarrow> string \<Rightarrow> string" where
  "Join a b =
     (if a = [] \<and> b = [] then []
      else if a = [] then Clean b
      else if b = [] then Clean a
      else Clean (a @ CHR ''/'' # b))"

text \<open>Model of \<open>filepath.Rel\<close> on Unix where its answer is plain: both paths are
  cleaned; equal paths give \<open>.\<close>; a rooted and an unrooted path cannot be related; a
  target whose elements extend those of the base gives the remaining elements. What
  the library answers in any other case is the parameter \<open>other\<close>.\<close>

definition Rel :: "(string \<Rightarrow> string \<Rightarrow> error + string) \<Rightarrow> string \<Rightarrow> string \<Rightarrow> error + string" where
  "Rel other basepath targpath =
     (if Clean targpath = Clean basepath then Inr ''.''
      else if rooted basepath \<noteq> rooted targpath then Inl (LibError ''Rel'')
      else if take (length (elems basepath)) (elems targpath) = elems basepath
      then Inr (join_path (drop (length (elems basepath)) (elems targpath)))
      else other basepath targpath)"

text \<open>Model of \<open>filepath.Walk\<close> over a tree that can be read throughout: the root is
  visited under the path given, every other entry under the \<open>Join\<close> of its directory's
  path and its name, a directory before its entries.\<close>

fun walk_tree :: "string \<Rightarrow> node \<Rightarrow> visit list" where
  "walk_tree path (File m t c) =
     [\<lparr>v_fullPath = path, v_info = lstat (File m t c), v_err = None\<rparr>]"
| "walk_tree path (Dir m t cs) =
     \<lparr>v_fullPath = path, v_info = lstat (Dir m t cs), v_err = None\<rparr> #
       concat (map (\<lambda>(name, n). walk_tree (Join path name) n) cs)"

text \<open>The node found by descending from a node along a list of names.\<close>

fun lookup :: "node \<Rightarrow> string list \<Rightarrow> node option" where
  "lookup n [] = Some n"
| "lookup (File m t c) (x # xs) = None"
| "lookup (Dir m t cs) (x # xs) =
     (case map_of cs x of None \<Rightarrow> None | Some n \<Rightarrow> lookup n xs)"

text \<open>\<open>os.Open\<close> in a world that holds the tree at \<open>root\<close> and nothing else: the
  empty path does not exist; a path at or below the root opens the node it leads to,
  a file yielding its bytes and a directory failing every read.\<close>

definition fs_Open :: "string \<Rightarrow> node \<Rightarrow> string \<Rightarrow> error + osfile" where
  "fs_Open root tree p =
     (if p = [] \<or> rooted p \<noteq> rooted root
         \<or> take (length (elems root)) (elems p) \<noteq> elems root
      then Inl (OSError ''open'')
      else (case lookup tree (drop (length (elems root)) (elems p)) of
              None \<Rightarrow> Inl (OSError ''open'')
            | Some (File m t c) \<Rightarrow> Inr \<lparr>f_content = c, f_rerr = None\<rparr>
            | Some (Dir m t cs) \<Rightarrow> Inr \<lparr>f_content = [], f_rerr = Some (OSError ''read'')\<rparr>))"

definition fs_env :: "(string \<Rightarrow> string \<Rightarrow> error + string) \<Rightarrow> string \<Rightarrow> node \<Rightarrow> os" where
  "fs_env other root tree =
     \<lparr>os_Open = fs_Open root tree,
      filepath_Walk = (\<lambda>p. walk_tree p tree),
      filepath_Rel = Rel other,
      sink_budget = None\<rparr>"

text \<open>Names a directory can hold, and trees built from them with no name twice in a
  directory.\<close>

definition legal_name :: "string \<Rightarrow> bool" where
  "legal_name x = (x \<noteq> [] \<and> CHR ''/'' \<notin> set x \<and> x \<noteq> ''.'' \<and> x \<noteq> ''..'')"

fun legal_tree :: "node \<Rightarrow> bool" where
  "legal_tree (File m t c) = True"
| "legal_tree (Dir m t cs) =
     (distinct (map fst cs) \<and> list_all (\<lambda>(name, n). legal_name name \<and> legal_tree n) cs)"

text \<open>A tree of regular files and directories: no file carries the directory bit.\<close>

fun regular_tree :: "node \<Rightarrow> bool" where
  "regular_tree (File m t c) = (\<not> bit m 31)"
| "regular_tree (Dir m t cs) = list_all (\<lambda>(name, n). regular_tree n) cs"

text \<open>The files below a node in walk order, each with the names leading to it, and
  the archive entry expected for a file.\<close>

fun files_under :: "node \<Rightarrow> (string list \<times> 32 word \<times> int \<times> bytes) list" where
  "files_under (File m t c) = [([], m, t, c)]"
| "files_under (Dir m t cs) =
     concat (map (\<lambda>(name, n). map (\<lambda>(p, x). (name # p, x)) (files_under n)) cs)"

definition entry_of :: "string list \<times> 32 word \<times> int \<times> bytes \<Rightarrow> header \<times> bytes" where
  "entry_of f =
     (case f of (p, m, t, c) \<Rightarrow>
        (\<lparr>Name = join_path p, Size = length c, Mode = ucast m, ModTime = t\<rparr>, c))"

text \<open>The tree of the specification's first scenario.\<close>

definition ex_tree :: node where
  "ex_tree = Dir 493 1
     [(''a.txt'', File 420 2 ''hello''),
      (''empty'', Dir 493 3 []),
      (''sub'', Dir 493 4 [(''b.txt'', File 420 5 ''world'')])]"

section \<open>A concrete run\<close>

definition ModeSymlink :: "32 word" where
  "ModeSymlink = push_bit 27 1"

text \<open>The walk of a directory holding \<open>a.txt\<close>, a dangling symbolic link \<open>link\<close>
  and \<open>sub/b.txt\<close>.\<close>

definition ex_visits :: "visit list" where
  "ex_visits =
     [\<lparr>v_fullPath = ''./must-gather/'',
       v_info = \<lparr>fi_Size = 4096, fi_Mode = ModeDir OR 493, fi_ModTime = 1\<rparr>, v_err = None\<rparr>,
      \<lparr>v_fullPath = ''must-gather/a.txt'',
       v_info = \<lparr>fi_Size = 5, fi_Mode = 420, fi_ModTime = 2\<rparr>, v_err = None\<rparr>,
      \<lparr>v_fullPath = ''must-gather/link'',
       v_info = \<lparr>fi_Size = 7, fi_Mode = ModeSymlink OR 511, fi_ModTime = 3\<rparr>, v_err = None\<rparr>,
      \<lparr>v_fullPath = ''must-gather/sub'',
       v_info = \<lparr>fi_Size = 4096, fi_Mode = ModeDir OR 493, fi_ModTime = 4\<rparr>, v_err = None\<rparr>,
      \<lparr>v_fullPath = ''must-gather/sub/b.txt'',
       v_info = \<lparr>fi_Size = 5, fi_Mode = 420, fi_ModTime = 5\<rparr>, v_err = None\<rparr>]"

definition ex_os :: os where
  "ex_os =
     \<lparr>os_Open = (\<lambda>p.
        if p = ''./must-gather/'' then Inr \<lparr>f_content = [], f_rerr = None\<rparr>
        else if p = ''must-gather/a.txt'' then Inr \<lparr>f_content = ''hello'', f_rerr = None\<rparr>
        else if p = ''must-gather/sub/b.txt'' then Inr \<lparr>f_content = ''world'', f_rerr = None\<rparr>
        else Inl (OSError ''open'')),
      filepath_Walk = (\<lambda>_. ex_visits),
      filepath_Rel = (\<lambda>b p.
        if p = ''must-gather/a.txt'' then Inr ''a.txt''
        else if p = ''must-gather/link'' then Inr ''link''
        else if p = ''must-gather/sub/b.txt'' then Inr ''sub/b.txt''
        else Inl (LibError ''Rel'')),
      sink_budget = None\<rparr>"

text \<open>The same system with a \<open>filepath.Rel\<close> that fails on \<open>a.txt\<close>.\<close>

definition ex_os_rel :: os where
  "ex_os_rel = ex_os\<lparr>filepath_Rel := \<lambda>b p.
     if p = ''must-gather/a.txt'' then Inl (LibError ''Rel'') else filepath_Rel ex_os b p\<rparr>"

text \<open>The writers and the trace after the walk has archived \<open>a.txt\<close>.\<close>

definition ex_w1 :: world where
  "ex_w1 =
     \<lparr>out = [Hdr \<lparr>Name = ''a.txt'', Size = 5, Mode = 420, ModTime = 2\<rparr>, Data ''hello''],
      pos = 2, nops = 2, gzerr = None, gzclosed = False, twerr = None, twrem = 0,
      trace = [EvOpenDir ''./must-gather/'', EvNewGzip, EvNewTar, EvOpen ''must-gather/a.txt'',
        EvWriteHeader \<lparr>Name = ''a.txt'', Size = 5, Mode = 420, ModTime = 2\<rparr>,
        EvCopy ''must-gather/a.txt'', EvCloseFile ''must-gather/a.txt'']\<rparr>"

text \<open>A walk that reports an error for the subdirectory, and a sink that accepts one
  write only.\<close>

definition ex_visit_err :: visit where
  "ex_visit_err = \<lparr>v_fullPath = ''must-gather/sub'',
     v_info = \<lparr>fi_Size = 4096, fi_Mode = ModeDir OR 493, fi_ModTime = 4\<rparr>,
     v_err = Some (OSError ''readdir'')\<rparr>"

definition ex_os_walkerr :: os where
  "ex_os_walkerr = ex_os\<lparr>filepath_Walk := \<lambda>_. take 2 ex_visits @ [ex_visit_err]\<rparr>"

definition ex_os_full :: os where
  "ex_os_full = ex_os\<lparr>sink_budget := Some 1\<rparr>"

text \<open>A credential service that answers 200 with a JSON body, one that answers 500,
  and the rest of the system around them.\<close>

definition ex_body :: bytes where
  \<open>ex_body = ''{"bucketName":"b","secretKey":"s","accessKey":"a","sessionToken":"t","region":"r","key":"k"}''\<close>

definition ex_fields :: "string \<Rightarrow> string" where
  "ex_fields tag =
     (if tag = ''bucketName'' then ''b'' else if tag = ''secretKey'' then ''s''
      else if tag = ''accessKey'' then ''a'' else if tag = ''sessionToken'' then ''t''
      else if tag = ''region'' then ''r'' else if tag = ''key'' then ''k'' else [])"

definition ex_net :: net where
  "ex_net =
     \<lparr>os_Getenv = (\<lambda>k. if k = ''HYDRA_URL'' then ''https://hydra.example/creds''
         else if k = ''HYDRA_USER'' then ''user'' else if k = ''HYDRA_PASS'' then ''pass'' else []),
      http_NewRequest = (\<lambda>m u. None),
      client_Do = (\<lambda>c r. Inr \<lparr>StatusCode = 200, Status = ''200 OK'', Body = ex_body\<rparr>),
      json_Decode = (\<lambda>b. if b = ex_body then Inr ex_fields else Inl (LibError ''json''))\<rparr>"

definition ex_net_500 :: net where
  "ex_net_500 = ex_net\<lparr>client_Do := \<lambda>c r.
     Inr \<lparr>StatusCode = 500, Status = ''500 Internal Server Error'', Body = []\<rparr>\<rparr>"

definition ex_sys :: sys where
  "ex_sys =
     \<lparr>sys_os = ex_os\<lparr>filepath_Walk := \<lambda>_. take 2 ex_visits\<rparr>,
      sys_net = ex_net,
      os_Create = (\<lambda>p. None),
      file_Seek = (\<lambda>n. None),
      session_NewSession = (\<lambda>s. None),
      s3_Upload = (\<lambda>s i. None)\<rparr>"

definition ex_sys_500 :: sys where
  "ex_sys_500 = ex_sys\<lparr>sys_net := ex_net_500\<rparr>"

text \<open>A walk whose only file is reported with size 7 while reading it yields the
  five bytes of \<open>hello\<close>, and a system whose root directory cannot be opened.\<close>

definition ex_visit_short :: visit where
  "ex_visit_short = \<lparr>v_fullPath = ''must-gather/a.txt'',
     v_info = \<lparr>fi_Size = 7, fi_Mode = 420, fi_ModTime = 2\<rparr>, v_err = None\<rparr>"

definition ex_os_short :: os where
  "ex_os_short = ex_os\<lparr>filepath_Walk := \<lambda>_. [ex_visits ! 0, ex_visit_short]\<rparr>"

definition ex_os_noroot :: os where
  "ex_os_noroot = ex_os\<lparr>os_Open := \<lambda>p. Inl (OSError ''open'')\<rparr>"

text \<open>Credential services that cannot be reached, that answer 200 with a body that
  is not JSON, and a configured URL that does not parse.\<close>

definition ex_net_down :: net where
  "ex_net_down = ex_net\<lparr>client_Do := \<lambda>c r. Inl (LibError ''dial'')\<rparr>"

definition ex_net_badjson :: net where
  "ex_net_badjson = ex_net\<lparr>client_Do := \<lambda>c r.
     Inr \<lparr>StatusCode = 200, Status = ''200 OK'', Body = ''not json''\<rparr>\<rparr>"

definition ex_net_badurl :: net where
  "ex_net_badurl = ex_net\<lparr>http_NewRequest := \<lambda>m u. Some (LibError ''url'')\<rparr>"

text \<open>The system with a session that cannot be created.\<close>

definition ex_sys_nosession :: sys where
  "ex_sys_nosession = ex_sys\<lparr>session_NewSession := \<lambda>s. Some (LibError ''session'')\<rparr>"

section \<open>Basic facts about the model\<close>


lemma walk_append:
  "walk fn (xs @ ys) w =
     (case walk fn xs w of (Some e, w') \<Rightarrow> (Some e, w') | (None, w') \<Rightarrow> walk fn ys w')"
  by (induction xs arbitrary: w) (auto split: prod.splits option.splits)

lemma trace_log [simp]: "trace (log e w) = trace w @ [e]"
  by (simp add: log_def)

lemma trace_gz_Write [simp]: "trace (snd (gz_Write env x w)) = trace w"
  by (simp add: gz_Write_def split: option.splits)

lemma trace_gz_Close [simp]: "trace (snd (gz_Close env w)) = trace w"
  by (simp add: gz_Close_def split: option.splits)

lemma trace_tar_WriteHeader [simp]: "trace (snd (tar_WriteHeader env h w)) = trace w"
  using trace_gz_Write [of env "Hdr h" w]
  by (cases "gz_Write env (Hdr h) w") (auto simp: tar_WriteHeader_def split: option.splits)

lemma trace_tar_Close [simp]: "trace (snd (tar_Close env w)) = trace w"
  using trace_gz_Write [of env Footer w]
  by (cases "gz_Write env Footer w") (auto simp: tar_Close_def split: option.splits)

lemma trace_io_Copy [simp]: "trace (snd (io_Copy env f w)) = trace w"
  using trace_gz_Write [of env "Data (take (twrem w) (f_content f))" w]
  by (cases "gz_Write env (Data (take (twrem w) (f_content f))) w")
     (auto simp: io_Copy_def Let_def split: option.splits)

lemma trace_walkFn:
  "\<exists>es. trace (snd (walkFn env dirPath v w)) = trace w @ es \<and> list_all file_event es"
proof -
  have a: "trace w1 = trace w0"
    if "tar_WriteHeader env h w0 = (r, w1)" for h w0 r w1
    using trace_tar_WriteHeader [of env h w0] that by simp
  have b: "trace w1 = trace w0"
    if "io_Copy env f w0 = (r, w1)" for f w0 r w1
    using trace_io_Copy [of env f w0] that by simp
  show ?thesis
    unfolding walkFn_def Let_def
    by (auto split: option.splits sum.splits prod.splits dest!: a b)
qed

lemma trace_walk:
  "\<exists>es. trace (snd (walk (walkFn env dirPath) vs w)) = trace w @ es \<and> list_all file_event es"
proof (induction vs arbitrary: w)
  case Nil
  show ?case by simp
next
  case (Cons v vs)
  obtain r w' where s: "walkFn env dirPath v w = (r, w')" by (cases "walkFn env dirPath v w")
  from trace_walkFn [of env dirPath v w] s
  obtain es where es: "trace w' = trace w @ es" "list_all file_event es" by auto
  show ?case
  proof (cases r)
    case None
    from Cons.IH [of w'] obtain es' where
      "trace (snd (walk (walkFn env dirPath) vs w')) = trace w' @ es'" "list_all file_event es'"
      by blast
    with es None s show ?thesis by (intro exI [of _ "es @ es'"]) simp
  next
    case (Some e)
    with es s show ?thesis by (intro exI [of _ es]) simp
  qed
qed

lemma trace_run_defers [simp]:
  "trace (run_defers env w) = trace w @ [EvTarClose, EvGzipClose, EvDirClose]"
  by (simp add: run_defers_def Let_def)

lemma file_event_no_close:
  "list_all file_event es \<Longrightarrow>
     EvTarClose \<notin> set es \<and> EvGzipClose \<notin> set es \<and> EvDirClose \<notin> set es"
  by (induction es) auto


lemma IsDir_bit: "IsDir info \<longleftrightarrow> bit (fi_Mode info) 31"
  unfolding IsDir_def ModeDir_def by (rule bit_iff_and_push_bit_not_eq_0 [symmetric])

lemma walkFn_open_fails:
  assumes "v_err v = None" "\<not> IsDir (v_info v)"
    "filepath_Rel env dirPath (v_fullPath v) = Inr relPath"
    "os_Open env (v_fullPath v) = Inl e"
  shows "walkFn env dirPath v w = (Some e, log (EvOpen (v_fullPath v)) w)"
  using assms by (simp add: walkFn_def)

lemma walkFn_trace_prefix:
  assumes "v_err v = None" "\<not> IsDir (v_info v)"
    "filepath_Rel env dirPath (v_fullPath v) = Inr relPath"
    "os_Open env (v_fullPath v) = Inr f"
  shows "\<exists>es. trace (snd (walkFn env dirPath v w)) =
     trace w @ EvOpen (v_fullPath v) # EvWriteHeader
         \<lparr>Name = relPath, Size = fi_Size (v_info v),
          Mode = ucast (fi_Mode (v_info v)), ModTime = fi_ModTime (v_info v)\<rparr> # es"
proof -
  have a: "trace w1 = trace w0"
    if "tar_WriteHeader env h w0 = (r, w1)" for h w0 r w1
    using trace_tar_WriteHeader [of env h w0] that by simp
  have b: "trace w1 = trace w0"
    if "io_Copy env f w0 = (r, w1)" for f w0 r w1
    using trace_io_Copy [of env f w0] that by simp
  show ?thesis
    using assms unfolding walkFn_def Let_def
    by (auto split: option.splits sum.splits prod.splits dest!: a b)
qed

lemma walkFn_out_ready:
  assumes "v_err v = None" "\<not> IsDir (v_info v)"
    "filepath_Rel env dirPath (v_fullPath v) = Inr relPath"
    "os_Open env (v_fullPath v) = Inr f"
    "twerr w = None" "twrem w = 0" "gzerr w = None" "sink_budget env = None"
  shows "out (snd (walkFn env dirPath v w)) =
     out w @ Hdr
         \<lparr>Name = relPath, Size = fi_Size (v_info v),
          Mode = ucast (fi_Mode (v_info v)), ModTime = fi_ModTime (v_info v)\<rparr> #
       (if take (fi_Size (v_info v)) (f_content f) = [] then []
        else [Data (take (fi_Size (v_info v)) (f_content f))])"
  using assms
  by (simp add: walkFn_def Let_def tar_WriteHeader_def io_Copy_def gz_Write_def
      sink_fails_def log_def)

lemma gz_Write_Walk_update [simp]: "gz_Write (env\<lparr>filepath_Walk := g\<rparr>) = gz_Write env"
  by (intro ext) (simp add: gz_Write_def sink_fails_def)

lemma walkFn_Walk_update [simp]: "walkFn (env\<lparr>filepath_Walk := g\<rparr>) = walkFn env"
proof -
  have wh: "tar_WriteHeader (env\<lparr>filepath_Walk := g\<rparr>) = tar_WriteHeader env"
    by (intro ext) (unfold tar_WriteHeader_def gz_Write_Walk_update, rule refl)
  have cp: "io_Copy (env\<lparr>filepath_Walk := g\<rparr>) = io_Copy env"
    by (intro ext) (unfold io_Copy_def gz_Write_Walk_update, rule refl)
  show ?thesis
    by (intro ext) (unfold walkFn_def wh cp, simp cong: option.case_cong sum.case_cong)
qed

lemma run_defers_Walk_update [simp]:
  "run_defers (env\<lparr>filepath_Walk := g\<rparr>) = run_defers env"
proof -
  have tc: "tar_Close (env\<lparr>filepath_Walk := g\<rparr>) = tar_Close env"
    by (intro ext) (unfold tar_Close_def gz_Write_Walk_update, rule refl)
  have gc: "gz_Close (env\<lparr>filepath_Walk := g\<rparr>) = gz_Close env"
    by (intro ext) (unfold gz_Close_def gz_Write_Walk_update, rule refl)
  show ?thesis
    by (intro ext) (unfold run_defers_def tc gc, rule refl)
qed

lemma dirToTar_Walk_cong:
  assumes "walk (walkFn env dirPath) (filepath_Walk env dirPath) =
           walk (walkFn env dirPath) vs"
  shows "dirToTar env dirPath w = dirToTar (env\<lparr>filepath_Walk := \<lambda>_. vs\<rparr>) dirPath w"
  using assms by (simp add: dirToTar_def cong: sum.case_cong)

lemma dirToTar_result:
  assumes "os_Open env dirPath = Inr dir"
  shows "dirToTar env dirPath w =
     (fst (walk (walkFn env dirPath) (filepath_Walk env dirPath)
         (log EvNewTar (log EvNewGzip (log (EvOpenDir dirPath) w)))),
      run_defers env (snd (walk (walkFn env dirPath) (filepath_Walk env dirPath)
         (log EvNewTar (log EvNewGzip (log (EvOpenDir dirPath) w))))))"
  using assms
  by (cases "walk (walkFn env dirPath) (filepath_Walk env dirPath)
         (log EvNewTar (log EvNewGzip (log (EvOpenDir dirPath) w)))")
     (simp add: dirToTar_def Let_def)

lemma dirToTar_Walk_cong_at:
  assumes "walk (walkFn env dirPath) (filepath_Walk env dirPath)
             (log EvNewTar (log EvNewGzip (log (EvOpenDir dirPath) w))) =
           walk (walkFn env dirPath) vs
             (log EvNewTar (log EvNewGzip (log (EvOpenDir dirPath) w)))"
  shows "dirToTar env dirPath w = dirToTar (env\<lparr>filepath_Walk := \<lambda>_. vs\<rparr>) dirPath w"
  using assms by (simp add: dirToTar_def cong: sum.case_cong)

lemma out_gz_Write:
  "\<exists>fin. out (snd (gz_Write env x w)) = out w @ fin \<and> set fin \<subseteq> {x}"
  by (simp add: gz_Write_def split: option.splits)

lemma out_tar_Close:
  "\<exists>fin. out (snd (tar_Close env w)) = out w @ fin \<and> set fin \<subseteq> {Footer}"
  using out_gz_Write [of env Footer w]
  by (cases "gz_Write env Footer w") (auto simp: tar_Close_def split: option.splits)

lemma out_gz_Close:
  "\<exists>fin. out (snd (gz_Close env w)) = out w @ fin \<and> set fin \<subseteq> {GzTrailer}"
  using out_gz_Write [of env GzTrailer "w\<lparr>gzclosed := True\<rparr>"]
  by (auto simp: gz_Close_def split: option.splits)

lemma out_log [simp]: "out (log e w) = out w"
  by (simp add: log_def)

lemma out_run_defers:
  "\<exists>fin. out (run_defers env w) = out w @ fin \<and> set fin \<subseteq> {Footer, GzTrailer}"
proof -
  obtain f1 where f1: "out (snd (tar_Close env (log EvTarClose w))) = out w @ f1" "set f1 \<subseteq> {Footer}"
    using out_tar_Close [of env "log EvTarClose w"] by auto
  obtain f2 where f2: "out (snd (gz_Close env (log EvGzipClose (snd (tar_Close env (log EvTarClose w)))))) =
      out (snd (tar_Close env (log EvTarClose w))) @ f2" "set f2 \<subseteq> {GzTrailer}"
    using out_gz_Close [of env "log EvGzipClose (snd (tar_Close env (log EvTarClose w)))"] by auto
  have "out (run_defers env w) = out w @ (f1 @ f2)"
    using f1(1) f2(1) by (simp add: run_defers_def Let_def)
  moreover have "set (f1 @ f2) \<subseteq> {Footer, GzTrailer}" using f1(2) f2(2) by auto
  ultimately show ?thesis by blast
qed

lemma tar_WriteHeader_ok:
  assumes "fst (tar_WriteHeader env h w) = None"
  shows "twerr w = None \<and> twrem w = 0 \<and> gzerr w = None \<and> \<not> sink_fails env (nops w)"
  using assms
  by (auto simp: tar_WriteHeader_def gz_Write_def split: option.splits if_splits)

lemma io_Copy_ok:
  assumes "fst (io_Copy env f w) = None"
  shows "f_rerr f = None \<and> length (f_content f) \<le> twrem w
     \<and> (f_content f \<noteq> [] \<longrightarrow> twerr w = None \<and> gzerr w = None \<and> \<not> sink_fails env (nops w))"
  using assms
  by (auto simp: io_Copy_def gz_Write_def Let_def split: option.splits if_splits)

lemma nops_tar_WriteHeader_ok:
  assumes "tar_WriteHeader env h w = (None, w')"
  shows "nops w' = Suc (nops w) \<and> gzerr w' = None \<and> twerr w' = None \<and> twrem w' = Size h"
  using assms
  by (auto simp: tar_WriteHeader_def gz_Write_def split: option.splits if_splits)

lemma nops_log [simp]: "nops (log e w) = nops w" and gzerr_log [simp]: "gzerr (log e w) = gzerr w"
  and twerr_log [simp]: "twerr (log e w) = twerr w" and twrem_log [simp]: "twrem (log e w) = twrem w"
  by (simp_all add: log_def)

lemma walkFn_opened:
  assumes "v_err v = None" "\<not> IsDir (v_info v)"
    "filepath_Rel env dirPath (v_fullPath v) = Inr relPath"
    "os_Open env (v_fullPath v) = Inr f"
  shows "fst (walkFn env dirPath v w) =
    (case tar_WriteHeader env
        \<lparr>Name = relPath, Size = fi_Size (v_info v),
          Mode = ucast (fi_Mode (v_info v)), ModTime = fi_ModTime (v_info v)\<rparr>
        (log (EvWriteHeader \<lparr>Name = relPath, Size = fi_Size (v_info v),
          Mode = ucast (fi_Mode (v_info v)), ModTime = fi_ModTime (v_info v)\<rparr>)
          (log (EvOpen (v_fullPath v)) w)) of
       (Some e, w1) \<Rightarrow> Some e
     | (None, w1) \<Rightarrow> fst (io_Copy env f (log (EvCopy (v_fullPath v)) w1)))"
  using assms
  by (simp add: walkFn_def Let_def split: prod.splits option.splits)

lemma walkFn_opened_fails:
  assumes "v_err v = None" "\<not> IsDir (v_info v)"
    "filepath_Rel env dirPath (v_fullPath v) = Inr relPath"
    "os_Open env (v_fullPath v) = Inr f"
    "f_rerr f \<noteq> None \<or> gzerr w \<noteq> None \<or> sink_fails env (nops w)
       \<or> (f_content f \<noteq> [] \<and> sink_fails env (Suc (nops w)))"
  shows "fst (walkFn env dirPath v w) \<noteq> None"
proof
  assume ok: "fst (walkFn env dirPath v w) = None"
  let ?h = "\<lparr>Name = relPath, Size = fi_Size (v_info v),
          Mode = ucast (fi_Mode (v_info v)), ModTime = fi_ModTime (v_info v)\<rparr>"
  let ?W = "log (EvWriteHeader ?h) (log (EvOpen (v_fullPath v)) w)"
  obtain r w1 where wh: "tar_WriteHeader env ?h ?W = (r, w1)"
    by (cases "tar_WriteHeader env ?h ?W")
  from ok walkFn_opened [OF assms(1-4), of w] wh
  have r: "r = None" and cp: "fst (io_Copy env f (log (EvCopy (v_fullPath v)) w1)) = None"
    by (auto split: option.splits)
  have "fst (tar_WriteHeader env ?h ?W) = None" using wh r by simp
  from tar_WriteHeader_ok [OF this]
  have healthy: "gzerr w = None" "\<not> sink_fails env (nops w)" by simp_all
  from nops_tar_WriteHeader_ok [of env ?h ?W w1] wh r
  have n: "nops w1 = Suc (nops w)" by simp
  from io_Copy_ok [OF cp] n
  have "f_rerr f = None" "f_content f \<noteq> [] \<longrightarrow> \<not> sink_fails env (Suc (nops w))"
    by auto
  with healthy assms(5) show False by auto
qed

lemma sink_fails_Suc: "sink_fails env n \<Longrightarrow> sink_fails env (Suc n)"
  by (auto simp: sink_fails_def split: option.splits)

lemma out_run_defers_exact:
  "out (run_defers env w) =
     out w
     @ (if twerr w = None \<and> twrem w = 0 \<and> gzerr w = None \<and> \<not> sink_fails env (nops w)
        then [Footer] else [])
     @ (if gzerr w = None \<and> \<not> gzclosed w \<and> \<not> sink_fails env (nops w)
           \<and> (twerr w = None \<and> twrem w = 0 \<longrightarrow> \<not> sink_fails env (Suc (nops w)))
        then [GzTrailer] else [])"
  by (cases "twerr w"; cases "gzerr w")
     (auto simp: run_defers_def Let_def tar_Close_def gz_Close_def gz_Write_def log_def
       dest: sink_fails_Suc)

lemma file_event_archive: "list_all file_event es \<Longrightarrow> list_all archive_event es"
proof (induction es)
  case Nil
  show ?case by simp
next
  case (Cons x xs)
  then show ?case by (cases x) auto
qed

lemma trace_dirToTar:
  "\<exists>A. trace (snd (dirToTar env dirPath w)) = trace w @ A \<and> list_all archive_event A
     \<and> (fst (dirToTar env dirPath w) = None \<longrightarrow>
          (\<exists>mid. A = mid @ [EvTarClose, EvGzipClose, EvDirClose]))"
proof (cases "os_Open env dirPath")
  case (Inl e)
  then show ?thesis by (simp add: dirToTar_def)
next
  case (Inr dir)
  let ?w0 = "log EvNewTar (log EvNewGzip (log (EvOpenDir dirPath) w))"
  let ?w1 = "snd (walk (walkFn env dirPath) (filepath_Walk env dirPath) ?w0)"
  obtain es where es: "trace ?w1 = trace ?w0 @ es" "list_all file_event es"
    using trace_walk [of env dirPath "filepath_Walk env dirPath" ?w0] by blast
  let ?A = "[EvOpenDir dirPath, EvNewGzip, EvNewTar] @ es @ [EvTarClose, EvGzipClose, EvDirClose]"
  have "trace (snd (dirToTar env dirPath w)) = trace w @ ?A"
    using es(1) by (simp add: dirToTar_result [OF Inr])
  moreover have "list_all archive_event ?A"
    using file_event_archive [OF es(2)] by simp
  moreover have "\<exists>mid. ?A = mid @ [EvTarClose, EvGzipClose, EvDirClose]"
    by (intro exI [of _ "[EvOpenDir dirPath, EvNewGzip, EvNewTar] @ es"]) simp
  ultimately show ?thesis by blast
qed

lemma trace_requestCreds:
  "\<exists>C. snd (requestCreds env tr) = tr @ C \<and> list_all creds_event C
     \<and> (\<forall>c. fst (requestCreds env tr) = Inr c \<longrightarrow>
          (\<exists>req. C = [EvDo \<lparr>InsecureSkipVerify = True\<rparr> req, EvBodyClose]))"
  by (auto simp: requestCreds_def Let_def split: option.splits sum.splits)

lemma fst_requestCreds: "fst (requestCreds env tr) = fst (requestCreds env [])"
  by (auto simp: requestCreds_def Let_def split: option.splits sum.splits)

lemma trace_uploadFile:
  "\<exists>U. trace (snd (uploadFile env c w)) = trace w @ U \<and> list_all upload_event U"
  by (auto simp: uploadFile_def createSession_def uploadFileToS3_def Let_def
      split: option.splits)

lemma trace_fatal [simp]: "trace (snd (fatal msg e w)) = trace w @ [EvFatal msg e]"
  and fst_fatal [simp]: "fst (fatal msg e w) = 255"
  by (simp_all add: fatal_def)

lemma no_upload_archive: "list_all archive_event A \<Longrightarrow> filter is_EvUpload A = []"
proof (induction A)
  case Nil
  show ?case by simp
next
  case (Cons x xs)
  then show ?case by (cases x) auto
qed

lemma no_upload_creds: "list_all creds_event C \<Longrightarrow> filter is_EvUpload C = []"
proof (induction C)
  case Nil
  show ?case by simp
next
  case (Cons x xs)
  then show ?case by (cases x) auto
qed

lemma uploads_dirToTar:
  "filter is_EvUpload (trace (snd (dirToTar env dirPath w))) = filter is_EvUpload (trace w)"
  using trace_dirToTar [of env dirPath w] by (auto simp: no_upload_archive)

lemma uploads_requestCreds:
  "filter is_EvUpload (snd (requestCreds env tr)) = filter is_EvUpload tr"
  using trace_requestCreds [of env tr] by (auto simp: no_upload_creds)

lemma uploads_uploadFile:
  "filter is_EvUpload (trace (snd (uploadFile env c w))) =
     filter is_EvUpload (trace w) @
       (if session_NewSession env \<lparr>cfg_Region = Region c, cfg_Credentials =
              \<lparr>AccessKeyID = AccessKey c, SecretAccessKey = SecretKey c, Token = SessionToken c\<rparr>\<rparr>
           = None
        then [EvUpload \<lparr>cfg_Region = Region c, cfg_Credentials =
                 \<lparr>AccessKeyID = AccessKey c, SecretAccessKey = SecretKey c, Token = SessionToken c\<rparr>\<rparr>
               \<lparr>in_Bucket = BucketName c, in_Key = Key c, in_BodyOffset = pos w\<rparr>]
        else [])"
  by (auto simp: uploadFile_def createSession_def uploadFileToS3_def toAWSCredentials_def Let_def
      log_def split: option.splits)

section \<open>Order of finalization\<close>

text \<open>Claim C3, as stated, at three concrete runs. A file reported with size 7 that
  yields five bytes: \<open>dirToTar\<close> returns nil, the tar writer's close finds the entry
  short and writes no end-of-archive marker, and the gzip writer is finalized all the
  same, its trailer following the file's bytes. A root that cannot be opened: the error
  is returned before either writer exists and nothing is finalized. A sink that fails
  while the file is copied: both closes run, and neither the marker nor the trailer is
  written. So it does not hold on every exit path that the end-of-archive marker is
  written before the gzip layer is finalized and the function returns.\<close>

theorem finalization_marker_counterexample:
  "fst (dirToTar ex_os_short srcDir new_world) = None
   \<and> out (snd (dirToTar ex_os_short srcDir new_world)) =
       [Hdr \<lparr>Name = ''a.txt'', Size = 7, Mode = 420, ModTime = 2\<rparr>, Data ''hello'', GzTrailer]
   \<and> dirToTar ex_os_noroot srcDir new_world = (Some (OSError ''open''), new_world)
   \<and> fst (dirToTar ex_os_full srcDir new_world) = Some (OSError ''write'')
   \<and> out (snd (dirToTar ex_os_full srcDir new_world)) =
       [Hdr \<lparr>Name = ''a.txt'', Size = 5, Mode = 420, ModTime = 2\<rparr>]"
  by code_simp

text \<open>Claim C3, amended. On every exit path of \<open>dirToTar\<close> taken after the writers
  are created, that is every path but the early return when the root cannot be
  opened, the close of the tar writer is called first, then the close of the gzip
  writer, then the close of the directory handle, each exactly once, after all the
  events of the walk and right before the function returns; no close is called
  earlier. What these closes add to the stream is the end-of-archive marker, exactly
  when the tar writer is not in error, its last entry is complete and the sink takes
  the write, followed by the gzip trailer, exactly when the gzip writer is not in error
  and the sink takes its write: the marker never follows the trailer. On the early
  return the error is returned and the sink is left untouched.\<close>

theorem finalization_order:
  "(case os_Open env dirPath of
      Inl e \<Rightarrow> dirToTar env dirPath w = (Some e, w)
    | Inr dir \<Rightarrow>
        (\<exists>mid. trace (snd (dirToTar env dirPath w)) =
             trace w @ [EvOpenDir dirPath, EvNewGzip, EvNewTar] @ mid
               @ [EvTarClose, EvGzipClose, EvDirClose]
           \<and> EvTarClose \<notin> set mid \<and> EvGzipClose \<notin> set mid \<and> EvDirClose \<notin> set mid)
        \<and> (let w1 = snd (walk (walkFn env dirPath) (filepath_Walk env dirPath)
                    (log EvNewTar (log EvNewGzip (log (EvOpenDir dirPath) w))))
           in out (snd (dirToTar env dirPath w)) =
                out w1
                @ (if twerr w1 = None \<and> twrem w1 = 0 \<and> gzerr w1 = None
                      \<and> \<not> sink_fails env (nops w1)
                   then [Footer] else [])
                @ (if gzerr w1 = None \<and> \<not> gzclosed w1 \<and> \<not> sink_fails env (nops w1)
                      \<and> (twerr w1 = None \<and> twrem w1 = 0 \<longrightarrow>
                           \<not> sink_fails env (Suc (nops w1)))
                   then [GzTrailer] else [])))"
proof (cases "os_Open env dirPath")
  case (Inl e)
  then show ?thesis by (simp add: dirToTar_def)
next
  case (Inr dir)
  let ?w0 = "log EvNewTar (log EvNewGzip (log (EvOpenDir dirPath) w))"
  let ?w1 = "snd (walk (walkFn env dirPath) (filepath_Walk env dirPath) ?w0)"
  obtain es where es: "trace ?w1 = trace ?w0 @ es" "list_all file_event es"
    using trace_walk [of env dirPath "filepath_Walk env dirPath" ?w0] by blast
  have res: "snd (dirToTar env dirPath w) = run_defers env ?w1"
    by (simp add: dirToTar_result [OF Inr])
  have "trace (snd (dirToTar env dirPath w)) =
      trace w @ [EvOpenDir dirPath, EvNewGzip, EvNewTar] @ es @ [EvTarClose, EvGzipClose, EvDirClose]"
    using es(1) by (simp add: res)
  with file_event_no_close [OF es(2)]
  have tr: "\<exists>mid. trace (snd (dirToTar env dirPath w)) =
             trace w @ [EvOpenDir dirPath, EvNewGzip, EvNewTar] @ mid
               @ [EvTarClose, EvGzipClose, EvDirClose]
           \<and> EvTarClose \<notin> set mid \<and> EvGzipClose \<notin> set mid \<and> EvDirClose \<notin> set mid"
    by blast
  have ou: "out (snd (dirToTar env dirPath w)) =
                out ?w1
                @ (if twerr ?w1 = None \<and> twrem ?w1 = 0 \<and> gzerr ?w1 = None
                      \<and> \<not> sink_fails env (nops ?w1)
                   then [Footer] else [])
                @ (if gzerr ?w1 = None \<and> \<not> gzclosed ?w1 \<and> \<not> sink_fails env (nops ?w1)
                      \<and> (twerr ?w1 = None \<and> twrem ?w1 = 0 \<longrightarrow>
                           \<not> sink_fails env (Suc (nops ?w1)))
                   then [GzTrailer] else [])"
    unfolding res by (rule out_run_defers_exact)
  from tr ou show ?thesis
    unfolding Let_def by (simp only: Inr sum.case simp_thms)
qed

theorem finalization_order_witness:
  "out (snd (dirToTar (sys_os ex_sys) srcDir new_world)) =
     [Hdr \<lparr>Name = ''a.txt'', Size = 5, Mode = 420, ModTime = 2\<rparr>, Data ''hello'',
      Footer, GzTrailer]
   \<and> (\<exists>mid. trace (snd (dirToTar (sys_os ex_sys) srcDir new_world)) =
          trace new_world @ [EvOpenDir srcDir, EvNewGzip, EvNewTar] @ mid
            @ [EvTarClose, EvGzipClose, EvDirClose]
        \<and> EvTarClose \<notin> set mid \<and> EvGzipClose \<notin> set mid \<and> EvDirClose \<notin> set mid)"
proof -
  have od: "os_Open (sys_os ex_sys) srcDir = Inr \<lparr>f_content = [], f_rerr = None\<rparr>"
    by (simp add: ex_sys_def ex_os_def srcDir_def)
  have w1: "snd (walk (walkFn (sys_os ex_sys) srcDir) (filepath_Walk (sys_os ex_sys) srcDir)
      (log EvNewTar (log EvNewGzip (log (EvOpenDir srcDir) new_world)))) = ex_w1"
    by code_simp
  have st: "twerr ex_w1 = None" "twrem ex_w1 = 0" "gzerr ex_w1 = None" "\<not> gzclosed ex_w1"
    "\<not> sink_fails (sys_os ex_sys) (nops ex_w1)" "\<not> sink_fails (sys_os ex_sys) (Suc (nops ex_w1))"
    "out ex_w1 = [Hdr \<lparr>Name = ''a.txt'', Size = 5, Mode = 420, ModTime = 2\<rparr>, Data ''hello'']"
    by (simp_all add: ex_w1_def ex_sys_def ex_os_def sink_fails_def)
  note t = finalization_order [of "sys_os ex_sys" srcDir new_world, unfolded od sum.case Let_def w1]
  from t st show ?thesis by simp
qed

section \<open>A failing relative-path computation\<close>

text \<open>Claim C9. When \<open>filepath.Rel\<close> fails for a visited non-directory entry, the
  callback returns nil and leaves the writers, the sink and the trace as they were;
  the whole run of \<open>dirToTar\<close> is the run over the walk without that entry: the file
  is left out silently, no error is reported for it, and the walk goes on.\<close>

theorem rel_failure_omits_file:
  assumes "v_err v = None" and "\<not> IsDir (v_info v)"
    and "filepath_Rel env dirPath (v_fullPath v) = Inl e"
    and "filepath_Walk env dirPath = pre @ v # post"
  shows "walkFn env dirPath v w = (None, w)
     \<and> dirToTar env dirPath w0 = dirToTar (env\<lparr>filepath_Walk := \<lambda>_. pre @ post\<rparr>) dirPath w0"
proof -
  have skip: "walkFn env dirPath v w' = (None, w')" for w'
    using assms(1-3) by (simp add: walkFn_def)
  have "walk (walkFn env dirPath) (pre @ v # post) w' = walk (walkFn env dirPath) (pre @ post) w'"
    for w'
    by (simp add: walk_append skip split: prod.splits option.splits)
  then have "walk (walkFn env dirPath) (filepath_Walk env dirPath) =
      walk (walkFn env dirPath) (pre @ post)"
    using assms(4) by (intro ext) simp
  then have "dirToTar env dirPath w0 =
      dirToTar (env\<lparr>filepath_Walk := \<lambda>_. pre @ post\<rparr>) dirPath w0"
    by (rule dirToTar_Walk_cong)
  with skip show ?thesis by simp
qed

theorem rel_failure_omits_file_witness:
  "walkFn ex_os_rel srcDir (ex_visits ! 1) new_world = (None, new_world)
   \<and> dirToTar ex_os_rel srcDir new_world =
       dirToTar (ex_os_rel\<lparr>filepath_Walk := \<lambda>_. take 1 ex_visits @ drop 2 ex_visits\<rparr>)
         srcDir new_world"
proof -
  have h1: "v_err (ex_visits ! 1) = None" by (simp add: ex_visits_def)
  have h2: "\<not> IsDir (v_info (ex_visits ! 1))"
    by (simp add: ex_visits_def IsDir_bit)
  have h3: "filepath_Rel ex_os_rel srcDir (v_fullPath (ex_visits ! 1)) = Inl (LibError ''Rel'')"
    by (simp add: ex_os_rel_def ex_visits_def)
  have h4: "filepath_Walk ex_os_rel srcDir = take 1 ex_visits @ (ex_visits ! 1) # drop 2 ex_visits"
    by (simp add: ex_os_rel_def ex_os_def ex_visits_def)
  show ?thesis
    using rel_failure_omits_file [OF h1 h2 h3 h4, of new_world new_world] by blast
qed

section \<open>Entries that are not directories\<close>

text \<open>Claim C10. The callback skips an entry exactly when bit 31 (\<open>ModeDir\<close>) of its
  mode is set. Every other entry the walk delivers without error and for which
  \<open>filepath.Rel\<close> succeeds, whatever its other type bits (symbolic link, device, socket,
  fifo), is opened; when the open succeeds the next call is \<open>WriteHeader\<close> with the
  relative path and the size, mode and modification time of the \<open>FileInfo\<close> the walk
  reported, and on healthy writers over a sink that does not fail the header and the
  file's bytes (cut at that size) reach the stream; when the open fails the callback
  returns the error, and a run of \<open>dirToTar\<close> that reaches the entry returns that
  error and visits nothing after it.\<close>

theorem non_directory_entries_are_archived:
  assumes "v_err v = None"
    and "\<not> bit (fi_Mode (v_info v)) 31"
    and "filepath_Rel env dirPath (v_fullPath v) = Inr relPath"
  shows "\<not> IsDir (v_info v) \<and>
    (case os_Open env (v_fullPath v) of
       Inr f \<Rightarrow>
         (\<exists>es. trace (snd (walkFn env dirPath v w)) =
            trace w @ EvOpen (v_fullPath v) #
              EvWriteHeader \<lparr>Name = relPath, Size = fi_Size (v_info v),
                Mode = ucast (fi_Mode (v_info v)), ModTime = fi_ModTime (v_info v)\<rparr> # es)
         \<and> (twerr w = None \<and> twrem w = 0 \<and> gzerr w = None \<and> sink_budget env = None \<longrightarrow>
              out (snd (walkFn env dirPath v w)) =
                out w @ Hdr \<lparr>Name = relPath, Size = fi_Size (v_info v),
                    Mode = ucast (fi_Mode (v_info v)), ModTime = fi_ModTime (v_info v)\<rparr> #
                  (if take (fi_Size (v_info v)) (f_content f) = [] then []
                   else [Data (take (fi_Size (v_info v)) (f_content f))]))
     | Inl e \<Rightarrow>
         walkFn env dirPath v w = (Some e, log (EvOpen (v_fullPath v)) w)
         \<and> (\<forall>pre post dir w0.
              filepath_Walk env dirPath = pre @ v # post \<and> os_Open env dirPath = Inr dir \<and>
              fst (walk (walkFn env dirPath) pre
                (log EvNewTar (log EvNewGzip (log (EvOpenDir dirPath) w0)))) = None
              \<longrightarrow> fst (dirToTar env dirPath w0) = Some e
                \<and> dirToTar env dirPath w0 =
                    dirToTar (env\<lparr>filepath_Walk := \<lambda>_. pre @ [v]\<rparr>) dirPath w0))"
proof -
  have nd: "\<not> IsDir (v_info v)" using assms(2) by (simp add: IsDir_bit)
  show ?thesis
  proof (cases "os_Open env (v_fullPath v)")
    case (Inr f)
    show ?thesis
      using nd Inr walkFn_trace_prefix [OF assms(1) nd assms(3) Inr, of w]
        walkFn_out_ready [OF assms(1) nd assms(3) Inr, of w]
      by simp
  next
    case (Inl e)
    have fail: "walkFn env dirPath v w' = (Some e, log (EvOpen (v_fullPath v)) w')" for w'
      using walkFn_open_fails [OF assms(1) nd assms(3) Inl] .
    have abort: "fst (dirToTar env dirPath w0) = Some e
        \<and> dirToTar env dirPath w0 = dirToTar (env\<lparr>filepath_Walk := \<lambda>_. pre @ [v]\<rparr>) dirPath w0"
      if w: "filepath_Walk env dirPath = pre @ v # post" and d: "os_Open env dirPath = Inr dir"
        and p: "fst (walk (walkFn env dirPath) pre
                (log EvNewTar (log EvNewGzip (log (EvOpenDir dirPath) w0)))) = None"
      for pre post dir w0
    proof -
      have eq: "walk (walkFn env dirPath) (pre @ v # post) w' =
          walk (walkFn env dirPath) (pre @ [v]) w'" for w'
        by (simp add: walk_append fail split: prod.splits option.splits)
      then have "walk (walkFn env dirPath) (filepath_Walk env dirPath) =
          walk (walkFn env dirPath) (pre @ [v])"
        using w by (intro ext) simp
      then have same: "dirToTar env dirPath w0 =
          dirToTar (env\<lparr>filepath_Walk := \<lambda>_. pre @ [v]\<rparr>) dirPath w0"
        by (rule dirToTar_Walk_cong)
      let ?w0 = "log EvNewTar (log EvNewGzip (log (EvOpenDir dirPath) w0))"
      obtain w1 where w1: "walk (walkFn env dirPath) pre ?w0 = (None, w1)"
        using p by (cases "walk (walkFn env dirPath) pre ?w0") auto
      have "fst (walk (walkFn env dirPath) (pre @ v # post) ?w0) = Some e"
        by (simp add: walk_append w1 fail)
      then have "fst (dirToTar env dirPath w0) = Some e"
        using w by (simp add: dirToTar_result [OF d])
      with same show ?thesis by simp
    qed
    have "\<forall>pre post dir w0.
        filepath_Walk env dirPath = pre @ v # post \<and> os_Open env dirPath = Inr dir \<and>
        fst (walk (walkFn env dirPath) pre
          (log EvNewTar (log EvNewGzip (log (EvOpenDir dirPath) w0)))) = None
        \<longrightarrow> fst (dirToTar env dirPath w0) = Some e
          \<and> dirToTar env dirPath w0 =
              dirToTar (env\<lparr>filepath_Walk := \<lambda>_. pre @ [v]\<rparr>) dirPath w0"
      using abort by blast
    with nd fail [of w] show ?thesis
      by (simp only: Inl sum.case simp_thms)
  qed
qed

theorem non_directory_entries_are_archived_witness:
  "\<not> IsDir (v_info (ex_visits ! 2))
   \<and> walkFn ex_os srcDir (ex_visits ! 2) new_world =
       (Some (OSError ''open''), log (EvOpen ''must-gather/link'') new_world)
   \<and> fst (dirToTar ex_os srcDir new_world) = Some (OSError ''open'')
   \<and> dirToTar ex_os srcDir new_world =
       dirToTar (ex_os\<lparr>filepath_Walk := \<lambda>_. take 2 ex_visits @ [ex_visits ! 2]\<rparr>) srcDir new_world
   \<and> out (snd (walkFn ex_os srcDir (ex_visits ! 1) new_world)) =
       [Hdr \<lparr>Name = ''a.txt'', Size = 5, Mode = 420, ModTime = 2\<rparr>, Data ''hello'']"
proof -
  have a1: "v_err (ex_visits ! 2) = None" by (simp add: ex_visits_def)
  have a2: "\<not> bit (fi_Mode (v_info (ex_visits ! 2))) 31"
    by (simp add: ex_visits_def ModeSymlink_def bit_simps)
  have a3: "filepath_Rel ex_os srcDir (v_fullPath (ex_visits ! 2)) = Inr ''link''"
    by (simp add: ex_os_def ex_visits_def)
  have op: "os_Open ex_os ''must-gather/link'' = Inl (OSError ''open'')"
    by (simp add: ex_os_def)
  have p: "v_fullPath (ex_visits ! 2) = ''must-gather/link''" by (simp add: ex_visits_def)
  have wk: "filepath_Walk ex_os srcDir = take 2 ex_visits @ ex_visits ! 2 # drop 3 ex_visits"
    by (simp add: ex_os_def ex_visits_def)
  have od: "os_Open ex_os srcDir = Inr \<lparr>f_content = [], f_rerr = None\<rparr>"
    by (simp add: ex_os_def srcDir_def)
  have pre: "fst (walk (walkFn ex_os srcDir) (take 2 ex_visits)
      (log EvNewTar (log EvNewGzip (log (EvOpenDir srcDir) new_world)))) = None"
    by code_simp
  have b1: "v_err (ex_visits ! 1) = None" by (simp add: ex_visits_def)
  have b2: "\<not> bit (fi_Mode (v_info (ex_visits ! 1))) 31" by (simp add: ex_visits_def)
  have b3: "filepath_Rel ex_os srcDir (v_fullPath (ex_visits ! 1)) = Inr ''a.txt''"
    by (simp add: ex_os_def ex_visits_def)
  have bo: "os_Open ex_os (v_fullPath (ex_visits ! 1)) = Inr \<lparr>f_content = ''hello'', f_rerr = None\<rparr>"
    by (simp add: ex_os_def ex_visits_def)
  have rdy: "twerr new_world = None \<and> twrem new_world = 0 \<and> gzerr new_world = None
      \<and> sink_budget ex_os = None"
    by (simp add: new_world_def ex_os_def)
  have bi: "v_info (ex_visits ! 1) = \<lparr>fi_Size = 5, fi_Mode = 420, fi_ModTime = 2\<rparr>"
    by (simp add: ex_visits_def)
  note full = non_directory_entries_are_archived
    [OF a1 a2 a3, of new_world, unfolded p op sum.case]
  from full have c1: "\<not> IsDir (v_info (ex_visits ! 2))" by (rule conjunct1)
  from full have c2: "walkFn ex_os srcDir (ex_visits ! 2) new_world =
       (Some (OSError ''open''), log (EvOpen ''must-gather/link'') new_world)"
    by (rule conjunct2 [THEN conjunct1])
  from full have c3: "\<forall>pre post dir w0.
        filepath_Walk ex_os srcDir = pre @ ex_visits ! 2 # post \<and> os_Open ex_os srcDir = Inr dir \<and>
        fst (walk (walkFn ex_os srcDir) pre
          (log EvNewTar (log EvNewGzip (log (EvOpenDir srcDir) w0)))) = None
        \<longrightarrow> fst (dirToTar ex_os srcDir w0) = Some (OSError ''open'')
          \<and> dirToTar ex_os srcDir w0 =
              dirToTar (ex_os\<lparr>filepath_Walk := \<lambda>_. pre @ [ex_visits ! 2]\<rparr>) srcDir w0"
    by (rule conjunct2 [THEN conjunct2])
  from c3 wk od pre have c4: "fst (dirToTar ex_os srcDir new_world) = Some (OSError ''open'')
      \<and> dirToTar ex_os srcDir new_world =
        dirToTar (ex_os\<lparr>filepath_Walk := \<lambda>_. take 2 ex_visits @ [ex_visits ! 2]\<rparr>) srcDir new_world"
    by blast
  note g = non_directory_entries_are_archived
    [OF b1 b2 b3, of new_world, unfolded bo sum.case bi]
  from g rdy have "out (snd (walkFn ex_os srcDir (ex_visits ! 1) new_world)) =
      out new_world @ Hdr \<lparr>Name = ''a.txt'', Size = fi_Size \<lparr>fi_Size = 5, fi_Mode = 420, fi_ModTime = 2\<rparr>,
             Mode = ucast (fi_Mode \<lparr>fi_Size = 5, fi_Mode = 420, fi_ModTime = 2\<rparr>),
             ModTime = fi_ModTime \<lparr>fi_Size = 5, fi_Mode = 420, fi_ModTime = 2\<rparr>\<rparr> #
        (if take (fi_Size \<lparr>fi_Size = 5, fi_Mode = 420, fi_ModTime = 2\<rparr>)
              (f_content \<lparr>f_content = ''hello'', f_rerr = None\<rparr>) = [] then []
         else [Data (take (fi_Size \<lparr>fi_Size = 5, fi_Mode = 420, fi_ModTime = 2\<rparr>)
              (f_content \<lparr>f_content = ''hello'', f_rerr = None\<rparr>))])"
    by blast
  then have c5: "out (snd (walkFn ex_os srcDir (ex_visits ! 1) new_world)) =
       [Hdr \<lparr>Name = ''a.txt'', Size = 5, Mode = 420, ModTime = 2\<rparr>, Data ''hello'']"
    by (simp add: new_world_def)
  from c1 c2 c4 c5 show ?thesis by blast
qed

section \<open>Failures during the walk\<close>

text \<open>Claim C2, as stated, at a concrete run: the walk archives \<open>a.txt\<close>, then fails to
  open the dangling link. \<open>dirToTar\<close> returns the error, and the deferred closes still
  write the end-of-archive marker and the gzip trailer, so what the sink holds reads back
  as a complete archive of one entry. The claim's last part (the partial contents are
  not a valid archive) does not hold.\<close>

theorem partial_archive_is_valid_counterexample:
  "fst (dirToTar ex_os srcDir new_world) = Some (OSError ''open'')
   \<and> parse_archive (out (snd (dirToTar ex_os srcDir new_world))) =
       Some [(\<lparr>Name = ''a.txt'', Size = 5, Mode = 420, ModTime = 2\<rparr>, ''hello'')]"
  by code_simp

text \<open>Claim C2, amended. For a run of \<open>dirToTar\<close> that has opened the root and reached
  an entry of the walk: an error the walk reports for the entry, a failure to open it, a
  read error of the opened file, and a failure of the sink or of the gzip layer at the
  header or at the copy each make the callback return an error; and whenever the
  callback returns an error, \<open>dirToTar\<close> returns that same error, nothing after that
  entry is visited or written, and the deferred closes run once, adding nothing to the
  stream but possibly the end-of-archive marker and the gzip trailer.\<close>

theorem callback_error_aborts_walk:
  assumes "os_Open env dirPath = Inr dir"
    and "filepath_Walk env dirPath = pre @ v # post"
    and "walk (walkFn env dirPath) pre
           (log EvNewTar (log EvNewGzip (log (EvOpenDir dirPath) w0))) = (None, w1)"
  shows "(\<forall>e w2. walkFn env dirPath v w1 = (Some e, w2) \<longrightarrow>
            dirToTar env dirPath w0 = (Some e, run_defers env w2)
          \<and> dirToTar env dirPath w0 =
              dirToTar (env\<lparr>filepath_Walk := \<lambda>_. pre @ [v]\<rparr>) dirPath w0
          \<and> (\<exists>fin. out (run_defers env w2) = out w2 @ fin \<and> set fin \<subseteq> {Footer, GzTrailer})
          \<and> trace (run_defers env w2) = trace w2 @ [EvTarClose, EvGzipClose, EvDirClose])
     \<and> (\<forall>e. v_err v = Some e \<longrightarrow> walkFn env dirPath v w1 = (Some e, w1))
     \<and> (v_err v = None \<and> \<not> IsDir (v_info v)
          \<and> (\<exists>relPath. filepath_Rel env dirPath (v_fullPath v) = Inr relPath) \<longrightarrow>
          (\<forall>e. os_Open env (v_fullPath v) = Inl e \<longrightarrow> fst (walkFn env dirPath v w1) = Some e)
        \<and> (\<forall>f. os_Open env (v_fullPath v) = Inr f
              \<and> (f_rerr f \<noteq> None \<or> gzerr w1 \<noteq> None \<or> sink_fails env (nops w1)
                  \<or> (f_content f \<noteq> [] \<and> sink_fails env (Suc (nops w1))))
              \<longrightarrow> fst (walkFn env dirPath v w1) \<noteq> None))"
proof (intro conjI allI impI)
  fix e w2
  assume f: "walkFn env dirPath v w1 = (Some e, w2)"
  let ?w0 = "log EvNewTar (log EvNewGzip (log (EvOpenDir dirPath) w0))"
  have full: "walk (walkFn env dirPath) (pre @ v # post) ?w0 = (Some e, w2)"
    by (simp add: walk_append assms(3) f)
  have trunc: "walk (walkFn env dirPath) (pre @ [v]) ?w0 = (Some e, w2)"
    by (simp add: walk_append assms(3) f)
  show "dirToTar env dirPath w0 = (Some e, run_defers env w2)"
    using full assms(2) by (simp add: dirToTar_result [OF assms(1)])
  have "walk (walkFn env dirPath) (filepath_Walk env dirPath) ?w0 =
      walk (walkFn env dirPath) (pre @ [v]) ?w0"
    using assms(2) trunc full by simp
  then show "dirToTar env dirPath w0 =
      dirToTar (env\<lparr>filepath_Walk := \<lambda>_. pre @ [v]\<rparr>) dirPath w0"
    by (rule dirToTar_Walk_cong_at)
  show "\<exists>fin. out (run_defers env w2) = out w2 @ fin \<and> set fin \<subseteq> {Footer, GzTrailer}"
    by (rule out_run_defers)
  show "trace (run_defers env w2) = trace w2 @ [EvTarClose, EvGzipClose, EvDirClose]"
    by simp
next
  fix e assume "v_err v = Some e"
  then show "walkFn env dirPath v w1 = (Some e, w1)" by (simp add: walkFn_def)
next
  fix e
  assume a: "v_err v = None \<and> \<not> IsDir (v_info v)
      \<and> (\<exists>relPath. filepath_Rel env dirPath (v_fullPath v) = Inr relPath)"
    and o: "os_Open env (v_fullPath v) = Inl e"
  then show "fst (walkFn env dirPath v w1) = Some e"
    by (auto simp: walkFn_open_fails)
next
  fix f
  assume a: "v_err v = None \<and> \<not> IsDir (v_info v)
      \<and> (\<exists>relPath. filepath_Rel env dirPath (v_fullPath v) = Inr relPath)"
    and o: "os_Open env (v_fullPath v) = Inr f
      \<and> (f_rerr f \<noteq> None \<or> gzerr w1 \<noteq> None \<or> sink_fails env (nops w1)
          \<or> (f_content f \<noteq> [] \<and> sink_fails env (Suc (nops w1))))"
  from a obtain relPath where r: "filepath_Rel env dirPath (v_fullPath v) = Inr relPath" by blast
  from a o show "fst (walkFn env dirPath v w1) \<noteq> None"
    using walkFn_opened_fails [OF _ _ r, of f w1] by blast
qed

theorem callback_error_aborts_walk_witness:
  "dirToTar ex_os srcDir new_world =
     (Some (OSError ''open''), run_defers ex_os (log (EvOpen ''must-gather/link'') ex_w1))
   \<and> dirToTar ex_os srcDir new_world =
       dirToTar (ex_os\<lparr>filepath_Walk := \<lambda>_. take 2 ex_visits @ [ex_visits ! 2]\<rparr>) srcDir new_world
   \<and> trace (run_defers ex_os (log (EvOpen ''must-gather/link'') ex_w1)) =
       trace (log (EvOpen ''must-gather/link'') ex_w1) @ [EvTarClose, EvGzipClose, EvDirClose]
   \<and> walkFn ex_os_walkerr srcDir ex_visit_err ex_w1 = (Some (OSError ''readdir''), ex_w1)
   \<and> fst (walkFn ex_os_full srcDir (ex_visits ! 1)
        (log EvNewTar (log EvNewGzip (log (EvOpenDir srcDir) new_world)))) \<noteq> None"
proof -
  let ?start = "log EvNewTar (log EvNewGzip (log (EvOpenDir srcDir) new_world))"
  have od: "os_Open ex_os srcDir = Inr \<lparr>f_content = [], f_rerr = None\<rparr>"
    by (simp add: ex_os_def srcDir_def)
  have wk: "filepath_Walk ex_os srcDir = take 2 ex_visits @ ex_visits ! 2 # drop 3 ex_visits"
    by (simp add: ex_os_def ex_visits_def)
  have pre: "walk (walkFn ex_os srcDir) (take 2 ex_visits) ?start = (None, ex_w1)"
    by code_simp
  have wf: "walkFn ex_os srcDir (ex_visits ! 2) ex_w1 =
      (Some (OSError ''open''), log (EvOpen ''must-gather/link'') ex_w1)"
    by code_simp
  from callback_error_aborts_walk [OF od wk pre] wf
  have i1: "dirToTar ex_os srcDir new_world =
       (Some (OSError ''open''), run_defers ex_os (log (EvOpen ''must-gather/link'') ex_w1))
     \<and> dirToTar ex_os srcDir new_world =
       dirToTar (ex_os\<lparr>filepath_Walk := \<lambda>_. take 2 ex_visits @ [ex_visits ! 2]\<rparr>) srcDir new_world
     \<and> trace (run_defers ex_os (log (EvOpen ''must-gather/link'') ex_w1)) =
       trace (log (EvOpen ''must-gather/link'') ex_w1) @ [EvTarClose, EvGzipClose, EvDirClose]"
    by blast
  have od2: "os_Open ex_os_walkerr srcDir = Inr \<lparr>f_content = [], f_rerr = None\<rparr>"
    by (simp add: ex_os_walkerr_def ex_os_def srcDir_def)
  have wk2: "filepath_Walk ex_os_walkerr srcDir = take 2 ex_visits @ ex_visit_err # []"
    by (simp add: ex_os_walkerr_def)
  have pre2: "walk (walkFn ex_os_walkerr srcDir) (take 2 ex_visits) ?start = (None, ex_w1)"
    by code_simp
  have ve: "v_err ex_visit_err = Some (OSError ''readdir'')" by (simp add: ex_visit_err_def)
  from callback_error_aborts_walk [OF od2 wk2 pre2] ve
  have i2: "walkFn ex_os_walkerr srcDir ex_visit_err ex_w1 = (Some (OSError ''readdir''), ex_w1)"
    by blast
  have od3: "os_Open ex_os_full srcDir = Inr \<lparr>f_content = [], f_rerr = None\<rparr>"
    by (simp add: ex_os_full_def ex_os_def srcDir_def)
  have wk3: "filepath_Walk ex_os_full srcDir = take 1 ex_visits @ ex_visits ! 1 # drop 2 ex_visits"
    by (simp add: ex_os_full_def ex_os_def ex_visits_def)
  have pre3: "walk (walkFn ex_os_full srcDir) (take 1 ex_visits) ?start = (None, ?start)"
    by (simp add: ex_visits_def walkFn_def IsDir_bit ModeDir_def bit_simps)
  have c3: "v_err (ex_visits ! 1) = None \<and> \<not> IsDir (v_info (ex_visits ! 1))
      \<and> (\<exists>relPath. filepath_Rel ex_os_full srcDir (v_fullPath (ex_visits ! 1)) = Inr relPath)"
    by (simp add: ex_visits_def IsDir_bit ex_os_full_def ex_os_def)
  have o3: "os_Open ex_os_full (v_fullPath (ex_visits ! 1)) = Inr \<lparr>f_content = ''hello'', f_rerr = None\<rparr>
      \<and> (f_content \<lparr>f_content = ''hello'', f_rerr = None\<rparr> \<noteq> []
          \<and> sink_fails ex_os_full (Suc (nops ?start)))"
    by (simp add: ex_visits_def ex_os_full_def ex_os_def sink_fails_def new_world_def)
  from callback_error_aborts_walk [OF od3 wk3 pre3] c3 o3
  have i3: "fst (walkFn ex_os_full srcDir (ex_visits ! 1) ?start) \<noteq> None"
    by blast
  from i1 i2 i3 show ?thesis by blast
qed

text \<open>The results of the deferred closes are dropped: when the sink fails only while
  the gzip trailer is written, \<open>dirToTar\<close> returns nil over a stream that does not read
  back.\<close>

lemma close_error_is_dropped:
  "fst (dirToTar (ex_os\<lparr>filepath_Walk := \<lambda>_. take 2 ex_visits, sink_budget := Some 3\<rparr>)
      srcDir new_world) = None
   \<and> parse_archive (out (snd (dirToTar
        (ex_os\<lparr>filepath_Walk := \<lambda>_. take 2 ex_visits, sink_budget := Some 3\<rparr>)
        srcDir new_world))) = None"
  by code_simp

section \<open>Outcomes of the credential request\<close>

text \<open>Claim C4. \<open>requestCreds\<close> returns an error when the request cannot be built,
  when the transport returns an error (that error), when the response's status code is
  not 200 (an error carrying the response's status line; this covers every status
  outside 2xx), and when the status is 200 but the body does not decode (the decoder's
  error). It returns credentials only for a response with status 200 whose body
  decodes, and then they are the decoded members \<open>bucketName\<close>, \<open>secretKey\<close>,
  \<open>accessKey\<close>, \<open>sessionToken\<close>, \<open>region\<close> and \<open>key\<close>.\<close>

theorem requestCreds_outcomes:
  "(\<forall>e. http_NewRequest env ''POST'' (os_Getenv env ''HYDRA_URL'') = Some e \<longrightarrow>
        fst (requestCreds env tr) = Inl e)
   \<and> (http_NewRequest env ''POST'' (os_Getenv env ''HYDRA_URL'') = None \<longrightarrow>
        (case client_Do env \<lparr>InsecureSkipVerify = True\<rparr>
                \<lparr>req_Method = ''POST'', req_URL = os_Getenv env ''HYDRA_URL'',
                 req_Body = reqData, req_ContentType = ''application/json'',
                 req_BasicAuth = (os_Getenv env ''HYDRA_USER'', os_Getenv env ''HYDRA_PASS'')\<rparr> of
           Inl e \<Rightarrow> fst (requestCreds env tr) = Inl e
         | Inr resp \<Rightarrow>
             (StatusCode resp \<noteq> 200 \<longrightarrow>
                fst (requestCreds env tr) = Inl (ErrUnexpectedStatus (Status resp)))
           \<and> (StatusCode resp = 200 \<longrightarrow>
                (case json_Decode env (Body resp) of
                   Inl e \<Rightarrow> fst (requestCreds env tr) = Inl e
                 | Inr m \<Rightarrow> fst (requestCreds env tr) =
                     Inr \<lparr>BucketName = m ''bucketName'', SecretKey = m ''secretKey'',
                          AccessKey = m ''accessKey'', SessionToken = m ''sessionToken'',
                          Region = m ''region'', Key = m ''key''\<rparr>))))
   \<and> (\<forall>c. fst (requestCreds env tr) = Inr c \<longrightarrow>
        (\<exists>resp m.
           client_Do env \<lparr>InsecureSkipVerify = True\<rparr>
                \<lparr>req_Method = ''POST'', req_URL = os_Getenv env ''HYDRA_URL'',
                 req_Body = reqData, req_ContentType = ''application/json'',
                 req_BasicAuth = (os_Getenv env ''HYDRA_USER'', os_Getenv env ''HYDRA_PASS'')\<rparr>
             = Inr resp
           \<and> StatusCode resp = 200 \<and> json_Decode env (Body resp) = Inr m
           \<and> c = \<lparr>BucketName = m ''bucketName'', SecretKey = m ''secretKey'',
                  AccessKey = m ''accessKey'', SessionToken = m ''sessionToken'',
                  Region = m ''region'', Key = m ''key''\<rparr>))"
  by (auto simp: requestCreds_def Let_def StatusOK_def decode_creds_def
      split: option.splits sum.splits if_splits)

theorem requestCreds_outcomes_witness:
  "fst (requestCreds ex_net_500 []) = Inl (ErrUnexpectedStatus ''500 Internal Server Error'')
   \<and> fst (requestCreds ex_net []) =
       Inr \<lparr>BucketName = ''b'', SecretKey = ''s'', AccessKey = ''a'',
            SessionToken = ''t'', Region = ''r'', Key = ''k''\<rparr>
   \<and> fst (requestCreds ex_net_down []) = Inl (LibError ''dial'')
   \<and> fst (requestCreds ex_net_badjson []) = Inl (LibError ''json'')
   \<and> fst (requestCreds ex_net_badurl []) = Inl (LibError ''url'')"
proof -
  have n5: "http_NewRequest ex_net_500 ''POST'' (os_Getenv ex_net_500 ''HYDRA_URL'') = None"
    by (simp add: ex_net_500_def ex_net_def)
  have d5: "client_Do ex_net_500 c r =
      Inr \<lparr>StatusCode = 500, Status = ''500 Internal Server Error'', Body = []\<rparr>" for c r
    by (simp add: ex_net_500_def)
  note t5 = requestCreds_outcomes [of ex_net_500 "[]", unfolded n5 d5 sum.case]
  from t5 have i1: "fst (requestCreds ex_net_500 []) =
      Inl (ErrUnexpectedStatus ''500 Internal Server Error'')"
    by simp
  have n: "http_NewRequest ex_net ''POST'' (os_Getenv ex_net ''HYDRA_URL'') = None"
    by (simp add: ex_net_def)
  have d: "client_Do ex_net c r =
      Inr \<lparr>StatusCode = 200, Status = ''200 OK'', Body = ex_body\<rparr>" for c r
    by (simp add: ex_net_def)
  have j: "json_Decode ex_net ex_body = Inr ex_fields" by (simp add: ex_net_def)
  have s: "StatusCode \<lparr>StatusCode = 200, Status = ''200 OK'', Body = ex_body\<rparr> = 200"
    and b: "Body \<lparr>StatusCode = 200, Status = ''200 OK'', Body = ex_body\<rparr> = ex_body"
    by simp_all
  note t = requestCreds_outcomes [of ex_net "[]", unfolded n d sum.case]
  from t s have "case json_Decode ex_net (Body \<lparr>StatusCode = 200, Status = ''200 OK'', Body = ex_body\<rparr>) of
                   Inl e \<Rightarrow> fst (requestCreds ex_net []) = Inl e
                 | Inr m \<Rightarrow> fst (requestCreds ex_net []) =
                     Inr \<lparr>BucketName = m ''bucketName'', SecretKey = m ''secretKey'',
                          AccessKey = m ''accessKey'', SessionToken = m ''sessionToken'',
                          Region = m ''region'', Key = m ''key''\<rparr>"
    by blast
  then have "fst (requestCreds ex_net []) =
                     Inr \<lparr>BucketName = ex_fields ''bucketName'', SecretKey = ex_fields ''secretKey'',
                          AccessKey = ex_fields ''accessKey'', SessionToken = ex_fields ''sessionToken'',
                          Region = ex_fields ''region'', Key = ex_fields ''key''\<rparr>"
    unfolding b j sum.case .
  then have i2: "fst (requestCreds ex_net []) =
       Inr \<lparr>BucketName = ''b'', SecretKey = ''s'', AccessKey = ''a'',
            SessionToken = ''t'', Region = ''r'', Key = ''k''\<rparr>"
    by (simp add: ex_fields_def)
  have nd: "http_NewRequest ex_net_down ''POST'' (os_Getenv ex_net_down ''HYDRA_URL'') = None"
    by (simp add: ex_net_down_def ex_net_def)
  have dd: "client_Do ex_net_down c r = Inl (LibError ''dial'')" for c r
    by (simp add: ex_net_down_def)
  note td = requestCreds_outcomes [of ex_net_down "[]", unfolded nd dd sum.case]
  from td have i3: "fst (requestCreds ex_net_down []) = Inl (LibError ''dial'')"
    by blast
  have nj: "http_NewRequest ex_net_badjson ''POST'' (os_Getenv ex_net_badjson ''HYDRA_URL'') = None"
    by (simp add: ex_net_badjson_def ex_net_def)
  have dj: "client_Do ex_net_badjson c r =
      Inr \<lparr>StatusCode = 200, Status = ''200 OK'', Body = ''not json''\<rparr>" for c r
    by (simp add: ex_net_badjson_def)
  have jj: "json_Decode ex_net_badjson ''not json'' = Inl (LibError ''json'')"
    by (simp add: ex_net_badjson_def ex_net_def ex_body_def)
  have sj: "StatusCode \<lparr>StatusCode = 200, Status = ''200 OK'', Body = ''not json''\<rparr> = 200"
    and bj: "Body \<lparr>StatusCode = 200, Status = ''200 OK'', Body = ''not json''\<rparr> = ''not json''"
    by simp_all
  note tj = requestCreds_outcomes [of ex_net_badjson "[]", unfolded nj dj sum.case]
  from tj sj have "case json_Decode ex_net_badjson
        (Body \<lparr>StatusCode = 200, Status = ''200 OK'', Body = ''not json''\<rparr>) of
                   Inl e \<Rightarrow> fst (requestCreds ex_net_badjson []) = Inl e
                 | Inr m \<Rightarrow> fst (requestCreds ex_net_badjson []) =
                     Inr \<lparr>BucketName = m ''bucketName'', SecretKey = m ''secretKey'',
                          AccessKey = m ''accessKey'', SessionToken = m ''sessionToken'',
                          Region = m ''region'', Key = m ''key''\<rparr>"
    by blast
  then have i4: "fst (requestCreds ex_net_badjson []) = Inl (LibError ''json'')"
    unfolding bj jj sum.case .
  have nu: "http_NewRequest ex_net_badurl ''POST'' (os_Getenv ex_net_badurl ''HYDRA_URL'') =
      Some (LibError ''url'')"
    by (simp add: ex_net_badurl_def)
  from requestCreds_outcomes [of ex_net_badurl "[]"] nu
  have i5: "fst (requestCreds ex_net_badurl []) = Inl (LibError ''url'')"
    by blast
  from i1 i2 i3 i4 i5 show ?thesis by blast
qed

section \<open>The request for credentials\<close>

text \<open>Claim C8, as stated, at a configured URL that \<open>http.NewRequest\<close> cannot parse:
  \<open>requestCreds\<close> returns the error without issuing any request.\<close>

theorem unparsable_url_counterexample:
  "requestCreds ex_net_badurl [] = (Inl (LibError ''url''), [])"
  by (simp add: requestCreds_def ex_net_badurl_def)

text \<open>Claim C8, amended. When the configured URL parses, \<open>requestCreds\<close> issues
  exactly one request: a POST to the URL of \<open>HYDRA_URL\<close>, with the fixed JSON body,
  content type \<open>application/json\<close> and basic authentication from \<open>HYDRA_USER\<close> and
  \<open>HYDRA_PASS\<close>, through a client whose transport has \<open>InsecureSkipVerify\<close> set.
  When the URL does not parse, it returns the error and issues no request.\<close>

theorem requestCreds_one_request:
  \<open>(case http_NewRequest env ''POST'' (os_Getenv env ''HYDRA_URL'') of
      Some e \<Rightarrow> requestCreds env tr = (Inl e, tr)
    | None \<Rightarrow>
        filter is_EvDo (snd (requestCreds env tr)) =
          filter is_EvDo tr @
            [EvDo \<lparr>InsecureSkipVerify = True\<rparr>
               \<lparr>req_Method = ''POST'', req_URL = os_Getenv env ''HYDRA_URL'',
                req_Body = ''{ "fileName":"TestFile", "isPrivate": "false" }'',
                req_ContentType = ''application/json'',
                req_BasicAuth = (os_Getenv env ''HYDRA_USER'', os_Getenv env ''HYDRA_PASS'')\<rparr>])\<close>
  by (auto simp: requestCreds_def Let_def reqData_def split: option.splits sum.splits)

theorem requestCreds_one_request_witness:
  \<open>filter is_EvDo (snd (requestCreds ex_net [])) =
     [EvDo \<lparr>InsecureSkipVerify = True\<rparr>
        \<lparr>req_Method = ''POST'', req_URL = ''https://hydra.example/creds'',
         req_Body = ''{ "fileName":"TestFile", "isPrivate": "false" }'',
         req_ContentType = ''application/json'',
         req_BasicAuth = (''user'', ''pass'')\<rparr>]\<close>
proof -
  have n: "http_NewRequest ex_net ''POST'' (os_Getenv ex_net ''HYDRA_URL'') = None"
    by (simp add: ex_net_def)
  have g: "os_Getenv ex_net ''HYDRA_URL'' = ''https://hydra.example/creds''"
    "os_Getenv ex_net ''HYDRA_USER'' = ''user''" "os_Getenv ex_net ''HYDRA_PASS'' = ''pass''"
    by (simp_all add: ex_net_def)
  note t = requestCreds_one_request [of ex_net "[]"]
  from t n have \<open>filter is_EvDo (snd (requestCreds ex_net [])) =
          filter is_EvDo [] @
            [EvDo \<lparr>InsecureSkipVerify = True\<rparr>
               \<lparr>req_Method = ''POST'', req_URL = os_Getenv ex_net ''HYDRA_URL'',
                req_Body = ''{ "fileName":"TestFile", "isPrivate": "false" }'',
                req_ContentType = ''application/json'',
                req_BasicAuth = (os_Getenv ex_net ''HYDRA_USER'', os_Getenv ex_net ''HYDRA_PASS'')\<rparr>]\<close>
    by (simp only: option.case)
  then show ?thesis unfolding g by simp
qed

section \<open>The stages of main\<close>

text \<open>Claim C5. The trace of every run of \<open>main\<close> is the creation of the archive
  file, then the events of the archiver, then those of the credential request, then
  those of the upload stage (rewind, session, upload), then at most the fatal exit.
  A credential event occurs only after \<open>dirToTar\<close> has returned nil, its three closes
  done; an event of the upload stage occurs only after \<open>requestCreds\<close> has returned
  credentials, its request made and the response body closed. When the credential
  request fails, whatever the failure, the run ends with status 255 and no event of
  the upload stage, and the fatal message is that of the credential request.\<close>

theorem pipeline_is_sequential:
  "\<exists>A C U F.
     trace (snd (main env)) = EvCreate tmpTar # A @ C @ U @ F
     \<and> list_all archive_event A \<and> list_all creds_event C
     \<and> list_all upload_event U \<and> list_all fatal_event F
     \<and> (C \<noteq> [] \<longrightarrow>
          fst (dirToTar (sys_os env) srcDir (log (EvCreate tmpTar) new_world)) = None
          \<and> (\<exists>mid. A = mid @ [EvTarClose, EvGzipClose, EvDirClose]))
     \<and> (U \<noteq> [] \<longrightarrow>
          (\<exists>c req. fst (requestCreds (sys_net env) []) = Inr c
             \<and> C = [EvDo \<lparr>InsecureSkipVerify = True\<rparr> req, EvBodyClose]))
     \<and> (\<forall>e. fst (requestCreds (sys_net env) []) = Inl e \<longrightarrow>
          fst (main env) = 255 \<and> U = []
          \<and> (C \<noteq> [] \<longrightarrow> F = [EvFatal ''Credentials request failed --'' e]))"
proof (cases "os_Create env tmpTar")
  case (Some err)
  have "trace (snd (main env)) =
      EvCreate tmpTar # [] @ [] @ [] @ [EvFatal ''Unable to create temporary archive file --'' err]"
    using Some by (simp add: main_def new_world_def log_def fatal_def)
  moreover have "fst (main env) = 255" using Some by (simp add: main_def)
  ultimately show ?thesis
    by (intro exI [of _ "[]"] exI [of _ "[EvFatal ''Unable to create temporary archive file --'' err]"])
       simp
next
  case None
  let ?f0 = "log (EvCreate tmpTar) new_world"
  have t0: "trace ?f0 = [EvCreate tmpTar]" by (simp add: new_world_def)
  obtain r f where d: "dirToTar (sys_os env) srcDir ?f0 = (r, f)"
    by (cases "dirToTar (sys_os env) srcDir ?f0")
  obtain A where A: "trace f = EvCreate tmpTar # A" "list_all archive_event A"
      "r = None \<longrightarrow> (\<exists>mid. A = mid @ [EvTarClose, EvGzipClose, EvDirClose])"
    using trace_dirToTar [of "sys_os env" srcDir ?f0] d t0 by auto
  show ?thesis
  proof (cases r)
    case (Some err)
    have "trace (snd (main env)) =
        EvCreate tmpTar # A @ [] @ [] @ [EvFatal ''Unable to archive Must-Gather directory --'' err]"
      using None d Some A(1) by (simp add: main_def)
    moreover have "fst (main env) = 255" using None d Some by (simp add: main_def)
    ultimately show ?thesis
      using A(2)
      by (intro exI [of _ A] exI [of _ "[]"]
          exI [of _ "[EvFatal ''Unable to archive Must-Gather directory --'' err]"]) simp
  next
    case rNone: None
    obtain cr tr where q: "requestCreds (sys_net env) (trace f) = (cr, tr)"
      by (cases "requestCreds (sys_net env) (trace f)")
    obtain C where C: "tr = trace f @ C" "list_all creds_event C"
        "\<forall>c. cr = Inr c \<longrightarrow> (\<exists>req. C = [EvDo \<lparr>InsecureSkipVerify = True\<rparr> req, EvBodyClose])"
      using trace_requestCreds [of "sys_net env" "trace f"] q by auto
    have cr: "fst (requestCreds (sys_net env) []) = cr"
      using fst_requestCreds [of "sys_net env" "trace f"] q by simp
    have arch: "fst (dirToTar (sys_os env) srcDir ?f0) = None
          \<and> (\<exists>mid. A = mid @ [EvTarClose, EvGzipClose, EvDirClose])"
      using d rNone A(3) by simp
    show ?thesis
    proof (cases cr)
      case (Inl err)
      have "trace (snd (main env)) =
          EvCreate tmpTar # A @ C @ [] @ [EvFatal ''Credentials request failed --'' err]"
        using None d rNone q Inl A(1) C(1) by (simp add: main_def)
      moreover have "fst (main env) = 255" using None d rNone q Inl by (simp add: main_def)
      ultimately show ?thesis
        using A(2) C(2) arch cr Inl
        by (intro exI [of _ A] exI [of _ C] exI [of _ "[]"]
            exI [of _ "[EvFatal ''Credentials request failed --'' err]"]) simp
    next
      case (Inr creds)
      from C(3) Inr obtain req where req: "C = [EvDo \<lparr>InsecureSkipVerify = True\<rparr> req, EvBodyClose]"
        by blast
      show ?thesis
      proof (cases "file_Seek env 0")
        case (Some err)
        have "trace (snd (main env)) =
            EvCreate tmpTar # A @ C @ [EvSeek 0] @ [EvFatal ''Unable to rewind archive file --'' err]"
          using None d rNone q Inr Some A(1) C(1) by (simp add: main_def)
        then show ?thesis
          using A(2) C(2) arch cr Inr req
          by (intro exI [of _ A] exI [of _ C] exI [of _ "[EvSeek 0]"]
              exI [of _ "[EvFatal ''Unable to rewind archive file --'' err]"]) simp
      next
        case sNone: None
        let ?f2 = "log (EvSeek 0) (f\<lparr>trace := tr, pos := 0\<rparr>)"
        obtain ur f' where u: "uploadFile env creds ?f2 = (ur, f')"
          by (cases "uploadFile env creds ?f2")
        obtain U where U: "trace f' = trace ?f2 @ U" "list_all upload_event U"
          using trace_uploadFile [of env creds ?f2] u by auto
        have t2: "trace ?f2 = EvCreate tmpTar # A @ C @ [EvSeek 0]"
          using A(1) C(1) by simp
        show ?thesis
        proof (cases ur)
          case (Some err)
          have "trace (snd (main env)) =
              EvCreate tmpTar # A @ C @ (EvSeek 0 # U) @ [EvFatal ''Could not upload file --'' err]"
            using None d rNone q Inr sNone u Some U(1) t2 by (simp add: main_def)
          then show ?thesis
            using A(2) C(2) U(2) arch cr Inr req
            by (intro exI [of _ A] exI [of _ C] exI [of _ "EvSeek 0 # U"]
                exI [of _ "[EvFatal ''Could not upload file --'' err]"]) simp
        next
          case uNone: None
          have "trace (snd (main env)) = EvCreate tmpTar # A @ C @ (EvSeek 0 # U) @ []"
            using None d rNone q Inr sNone u uNone U(1) t2 by (simp add: main_def)
          then show ?thesis
            using A(2) C(2) U(2) arch cr Inr req
            by (intro exI [of _ A] exI [of _ C] exI [of _ "EvSeek 0 # U"] exI [of _ "[]"]) simp
        qed
      qed
    qed
  qed
qed

theorem pipeline_is_sequential_witness:
  "fst (main ex_sys_500) = 255
   \<and> (\<exists>A C F. trace (snd (main ex_sys_500)) = EvCreate tmpTar # A @ C @ F
        \<and> list_all archive_event A \<and> list_all creds_event C \<and> list_all fatal_event F)"
proof -
  have e: "fst (requestCreds (sys_net ex_sys_500) []) =
      Inl (ErrUnexpectedStatus ''500 Internal Server Error'')"
    by code_simp
  from pipeline_is_sequential [of ex_sys_500] obtain A C U F where
    t: "trace (snd (main ex_sys_500)) = EvCreate tmpTar # A @ C @ U @ F"
      "list_all archive_event A" "list_all creds_event C" "list_all fatal_event F"
    and k: "\<forall>e. fst (requestCreds (sys_net ex_sys_500) []) = Inl e \<longrightarrow>
          fst (main ex_sys_500) = 255 \<and> U = []
          \<and> (C \<noteq> [] \<longrightarrow> F = [EvFatal ''Credentials request failed --'' e])"
    by blast
  from k e have "fst (main ex_sys_500) = 255" "U = []" by blast+
  with t show ?thesis by auto
qed

section \<open>The upload\<close>

text \<open>Claim C6, as stated, at a system whose credential request succeeds and whose
  AWS session cannot be created: \<open>main\<close> ends with status 255 and the uploader is never
  invoked.\<close>

theorem no_session_counterexample:
  "fst (requestCreds (sys_net ex_sys_nosession) []) =
     Inr \<lparr>BucketName = ''b'', SecretKey = ''s'', AccessKey = ''a'',
          SessionToken = ''t'', Region = ''r'', Key = ''k''\<rparr>
   \<and> fst (main ex_sys_nosession) = 255
   \<and> filter is_EvUpload (trace (snd (main ex_sys_nosession))) = []"
  by code_simp

text \<open>Claim C6, amended. When the credential request succeeds (the archive having been
  written), the archive file is rewound to offset 0 and, if that rewind and the creation
  of the session succeed, the uploader is invoked exactly once, on the file at offset 0,
  with the bucket name and key of the decoded response and a session made of its region
  and its access key, secret key and session token. If the rewind or the creation of
  the session fails, or an earlier stage has failed, the uploader is not invoked.\<close>

theorem upload_invocation:
  "filter is_EvUpload (trace (snd (main env))) =
     (case fst (requestCreds (sys_net env) []) of
        Inl e \<Rightarrow> []
      | Inr c \<Rightarrow>
          if os_Create env tmpTar = None
             \<and> fst (dirToTar (sys_os env) srcDir (log (EvCreate tmpTar) new_world)) = None
             \<and> file_Seek env 0 = None
             \<and> session_NewSession env \<lparr>cfg_Region = Region c, cfg_Credentials =
                   \<lparr>AccessKeyID = AccessKey c, SecretAccessKey = SecretKey c,
                    Token = SessionToken c\<rparr>\<rparr> = None
          then [EvUpload \<lparr>cfg_Region = Region c, cfg_Credentials =
                   \<lparr>AccessKeyID = AccessKey c, SecretAccessKey = SecretKey c,
                    Token = SessionToken c\<rparr>\<rparr>
                 \<lparr>in_Bucket = BucketName c, in_Key = Key c, in_BodyOffset = 0\<rparr>]
          else [])"
proof (cases "os_Create env tmpTar")
  case (Some err)
  then show ?thesis
    by (simp add: main_def new_world_def log_def fatal_def split: sum.splits)
next
  case None
  let ?f0 = "log (EvCreate tmpTar) new_world"
  obtain r f where d: "dirToTar (sys_os env) srcDir ?f0 = (r, f)"
    by (cases "dirToTar (sys_os env) srcDir ?f0")
  have uf: "filter is_EvUpload (trace f) = []"
    using uploads_dirToTar [of "sys_os env" srcDir ?f0] d by (simp add: new_world_def)
  show ?thesis
  proof (cases r)
    case (Some err)
    then show ?thesis
      using None d uf by (simp add: main_def split: sum.splits)
  next
    case rNone: None
    obtain cr tr where q: "requestCreds (sys_net env) (trace f) = (cr, tr)"
      by (cases "requestCreds (sys_net env) (trace f)")
    have ut: "filter is_EvUpload tr = []"
      using uploads_requestCreds [of "sys_net env" "trace f"] q uf by simp
    have cr: "fst (requestCreds (sys_net env) []) = cr"
      using fst_requestCreds [of "sys_net env" "trace f"] q by simp
    show ?thesis
    proof (cases cr)
      case (Inl err)
      then show ?thesis
        using None d rNone q ut cr by (simp add: main_def)
    next
      case (Inr c)
      show ?thesis
      proof (cases "file_Seek env 0")
        case (Some err)
        then show ?thesis
          using None d rNone q Inr ut cr by (simp add: main_def)
      next
        case sNone: None
        let ?f2 = "log (EvSeek 0) (f\<lparr>trace := tr, pos := 0\<rparr>)"
        obtain ur f' where u: "uploadFile env c ?f2 = (ur, f')"
          by (cases "uploadFile env c ?f2")
        have p: "pos ?f2 = 0" by (simp add: log_def)
        have "filter is_EvUpload (trace f') =
          (if session_NewSession env \<lparr>cfg_Region = Region c, cfg_Credentials =
              \<lparr>AccessKeyID = AccessKey c, SecretAccessKey = SecretKey c, Token = SessionToken c\<rparr>\<rparr>
             = None
           then [EvUpload \<lparr>cfg_Region = Region c, cfg_Credentials =
                 \<lparr>AccessKeyID = AccessKey c, SecretAccessKey = SecretKey c, Token = SessionToken c\<rparr>\<rparr>
               \<lparr>in_Bucket = BucketName c, in_Key = Key c, in_BodyOffset = 0\<rparr>]
           else [])"
          using uploads_uploadFile [of env c ?f2] u ut unfolding p by simp
        then show ?thesis
          using None d rNone q Inr sNone u cr
          by (cases ur) (simp_all add: main_def)
      qed
    qed
  qed
qed

theorem upload_invocation_witness:
  "filter is_EvUpload (trace (snd (main ex_sys))) =
     [EvUpload \<lparr>cfg_Region = ''r'', cfg_Credentials =
          \<lparr>AccessKeyID = ''a'', SecretAccessKey = ''s'', Token = ''t''\<rparr>\<rparr>
        \<lparr>in_Bucket = ''b'', in_Key = ''k'', in_BodyOffset = 0\<rparr>]"
proof -
  have c: "fst (requestCreds (sys_net ex_sys) []) =
     Inr \<lparr>BucketName = ''b'', SecretKey = ''s'', AccessKey = ''a'',
          SessionToken = ''t'', Region = ''r'', Key = ''k''\<rparr>"
    by code_simp
  have a: "fst (dirToTar (sys_os ex_sys) srcDir (log (EvCreate tmpTar) new_world)) = None"
    by code_simp
  have o: "os_Create ex_sys tmpTar = None" "file_Seek ex_sys 0 = None"
    "session_NewSession ex_sys s = None" for s
    by (simp_all add: ex_sys_def)
  note t = upload_invocation [of ex_sys, unfolded c sum.case a o]
  from t show ?thesis by simp
qed

end
